theory Spec2Isabelle
  imports Complex_Main "HOL-Library.Log_Nat" "HOL-Library.Multiset" "HOL-Library.Sublist"
begin

section \<open>Errors, rows and collaborator replies\<close>

text \<open>
  Values thrown inside the handlers. \<open>Error m\<close> is \<^verbatim>\<open>new Error(m)\<close>;
  \<open>TypeError\<close> is what reading a property of \<^verbatim>\<open>undefined\<close> or \<^verbatim>\<open>null\<close> throws (its
  message is engine specific and not modelled); \<open>SyntaxError\<close> is what \<^verbatim>\<open>JSON.parse\<close>
  throws. A collaborator may reject with any of them.
\<close>

datatype js_error = Error string | TypeError | SyntaxError

record reviewer =
  rv_id :: string
  dimension :: string

text \<open>
  A scenario row as the handlers read it. \<open>reviewers\<close> is \<open>None\<close> when the row has no
  such field: the rows of \<^verbatim>\<open>useBenchmarkScenarios\<close> come from \<^verbatim>\<open>select('*')\<close> on a table
  whose listed columns hold no reviewers.
\<close>

record scenario =
  sc_id :: string
  sc_name :: string
  prompt :: string
  llm_temperature :: rat
  reviewers :: "reviewer list option"

record session =
  session_user_id :: string

record user_secret =
  secret :: string

text \<open>
  What \<^verbatim>\<open>JSON.parse\<close> can return. An object is the list of its own properties (the
  names are distinct). A number literal beyond the range of a double parses to an
  infinity, given by its sign.
\<close>

datatype json =
    JNull
  | JBool bool
  | JNumber rat
  | JInfinity bool
  | JString string
  | JArray "json list"
  | JObject "(string \<times> json) list"

definition read_GPT_ENGINEER_TEST_TOKEN :: "json \<Rightarrow> js_error + json option" where
  \<comment> \<open>\<^verbatim>\<open>secrets.GPT_ENGINEER_TEST_TOKEN\<close>: reading a property of \<^verbatim>\<open>null\<close> throws; a boolean,
     number, string or array has no property of this name, own or inherited, and neither
     has \<^verbatim>\<open>Object.prototype\<close>; \<open>None\<close> is \<^verbatim>\<open>undefined\<close>.\<close>
  "read_GPT_ENGINEER_TEST_TOKEN secrets =
     (case secrets of
        JNull \<Rightarrow> Inl TypeError
      | JObject props \<Rightarrow> Inr (map_of props ''GPT_ENGINEER_TEST_TOKEN'')
      | _ \<Rightarrow> Inr None)"

definition truthy :: "json \<Rightarrow> bool" where
  "truthy v =
     (case v of
        JNull \<Rightarrow> False
      | JBool b \<Rightarrow> b
      | JNumber n \<Rightarrow> n \<noteq> 0
      | JInfinity _ \<Rightarrow> True
      | JString s \<Rightarrow> s \<noteq> []
      | JArray _ \<Rightarrow> True
      | JObject _ \<Rightarrow> True)"

text \<open>The two shapes \<^verbatim>\<open>impersonateUser\<close> is expected to return at its two call sites.\<close>

record imp_record =
  projectId :: string
  initialRequest :: string
  messages :: "string list"

record event_data =
  data_id :: "string option"

record imp_event =
  ev_type :: string
  ev_data :: "event_data option"

datatype impersonation = Flat imp_record | Events "imp_event list"

text \<open>
  The object handed to the insert on table \<^verbatim>\<open>runs\<close>. A field the call site leaves out
  (or whose value is \<^verbatim>\<open>undefined\<close>) is \<open>None\<close>.
\<close>

record run_insert =
  scenario_id :: string
  system_version :: string
  project_id :: "string option"
  user_id :: string
  link :: "string option"
  state :: "string option"

record run_row =
  run_id :: string
  run_fields :: run_insert

record result_insert =
  res_run_id :: string
  res_reviewer_id :: string
  impersonation_results :: "imp_event list"
  res_system_version :: string

record project_data =
  project_link :: "string option"

record fetch_response =
  ok :: bool
  statusText :: string
  json :: "js_error + project_data"

text \<open>The pair \<^verbatim>\<open>{ data, error }\<close> of the remote procedure: the truthiness of
  \<^verbatim>\<open>data\<close> and the message of \<^verbatim>\<open>error\<close> when it is not null.\<close>

record rpc_result =
  rpc_data :: bool
  rpc_error :: "string option"

datatype toast = ToastError string | ToastSuccess string | ToastWarning string

text \<open>Every request that leaves the browser, with its arguments.\<close>

datatype call =
    ImpersonateUser string string "rat option"
  | FetchProject string "string option" string
  | RunsInsert run_insert
  | StartPausedRun string
  | AddRun run_insert
  | AddResult result_insert

text \<open>
  The collaborators. Each reply may depend on every request made so far (the first
  argument), so a collaborator can answer the same request differently at different
  moments. \<open>JSON_parse\<close> is the language's \<^verbatim>\<open>JSON.parse\<close>: the parsed value or the thrown
  error. \<open>ToString\<close> is the language's conversion of a value that is not a string to a
  string, as a template literal applies it. \<open>runs_insert\<close> is
  \<^verbatim>\<open>supabase.from('runs').insert(..).select().single()\<close>: the error's message or the id
  of the stored row. \<open>addRun_mutateAsync\<close> and \<open>addResult_mutateAsync\<close> are the mutation
  hooks of the page variant: a rejection or the stored row's id.
\<close>

record env =
  JSON_parse :: "string \<Rightarrow> js_error + json"
  ToString :: "json \<Rightarrow> string"
  impersonateUser :: "call list \<Rightarrow> string \<Rightarrow> string \<Rightarrow> rat option \<Rightarrow> js_error + impersonation"
  fetch :: "call list \<Rightarrow> string \<Rightarrow> string option \<Rightarrow> string \<Rightarrow> js_error + fetch_response"
  runs_insert :: "call list \<Rightarrow> run_insert \<Rightarrow> string + string"
  rpc_start_paused_run :: "call list \<Rightarrow> string \<Rightarrow> rpc_result"
  addRun_mutateAsync :: "call list \<Rightarrow> run_insert \<Rightarrow> js_error + string"
  addResult_mutateAsync :: "call list \<Rightarrow> result_insert \<Rightarrow> js_error + unit"

text \<open>
  Everything a handler can change: the two remote tables (rows in the order they were
  stored), the requests made, the notifications shown, the console, the running flag
  and the navigation requests.
\<close>

record world =
  runs_tbl :: "run_row list"
  results_tbl :: "result_insert list"
  calls :: "call list"
  toasts :: "toast list"
  console :: "(string \<times> js_error) list"
  isRunning :: bool
  navigated :: "string list"

definition log_call :: "call \<Rightarrow> world \<Rightarrow> world" where
  "log_call c w = w\<lparr>calls := calls w @ [c]\<rparr>"

definition show_toast :: "toast \<Rightarrow> world \<Rightarrow> world" where
  "show_toast t w = w\<lparr>toasts := toasts w @ [t]\<rparr>"

definition store_run :: "string \<Rightarrow> run_insert \<Rightarrow> world \<Rightarrow> world" where
  "store_run i r w = w\<lparr>runs_tbl := runs_tbl w @ [\<lparr>run_id = i, run_fields = r\<rparr>]\<rparr>"

definition store_result :: "result_insert \<Rightarrow> world \<Rightarrow> world" where
  "store_result r w = w\<lparr>results_tbl := results_tbl w @ [r]\<rparr>"

section \<open>The scenario loop\<close>

text \<open>
  \<^verbatim>\<open>for (const scenarioId of selectedScenarios) { ... }\<close> inside \<^verbatim>\<open>try\<close>: the body runs
  on each id in order, and the first throw leaves the loop with the thrown value.
\<close>

fun for_scenarios ::
  "(world \<Rightarrow> string \<Rightarrow> world \<times> js_error option) \<Rightarrow> world \<Rightarrow> string list
    \<Rightarrow> world \<times> js_error option" where
  "for_scenarios body w [] = (w, None)"
| "for_scenarios body w (scenarioId # rest) =
     (case body w scenarioId of
        (w', Some e) \<Rightarrow> (w', Some e)
      | (w', None) \<Rightarrow> for_scenarios body w' rest)"

section \<open>BenchmarkRunner.handleStartBenchmark\<close>

definition projectId_of :: "impersonation \<Rightarrow> string option" where
  \<comment> \<open>\<^verbatim>\<open>const { projectId, ... } = await impersonateUser(..)\<close>: an array has no such field.\<close>
  "projectId_of r = (case r of Flat o' \<Rightarrow> Some (projectId o') | Events _ \<Rightarrow> None)"

definition runner_body ::
  "env \<Rightarrow> scenario list \<Rightarrow> string \<Rightarrow> session option \<Rightarrow> string \<Rightarrow> world \<Rightarrow> string
    \<Rightarrow> world \<times> js_error option" where
  "runner_body e scenarios systemVersion sess gptEngineerTestToken w scenarioId =
     (case find (\<lambda>s. sc_id s = scenarioId) scenarios of
        None \<Rightarrow> (w, Some TypeError)
      | Some scen \<Rightarrow>
          let c1 = ImpersonateUser (prompt scen) systemVersion (Some (llm_temperature scen));
              w1 = log_call c1 w
          in (case impersonateUser e (calls w) (prompt scen) systemVersion
                     (Some (llm_temperature scen)) of
                Inl err \<Rightarrow> (w1, Some err)
              | Inr outcome \<Rightarrow>
                  let pid = projectId_of outcome;
                      w2 = log_call (FetchProject systemVersion pid gptEngineerTestToken) w1
                  in (case fetch e (calls w1) systemVersion pid gptEngineerTestToken of
                        Inl err \<Rightarrow> (w2, Some err)
                      | Inr projectResponse \<Rightarrow>
                          if \<not> ok projectResponse then
                            (w2, Some (Error (''Failed to fetch project details: ''
                                               @ statusText projectResponse)))
                          else (case json projectResponse of
                                  Inl err \<Rightarrow> (w2, Some err)
                                | Inr projectData \<Rightarrow>
                                    (case sess of
                                       None \<Rightarrow> (w2, Some TypeError)
                                     | Some s \<Rightarrow>
                                         let row = \<lparr>scenario_id = scenarioId,
                                                    system_version = systemVersion,
                                                    project_id = pid,
                                                    user_id = session_user_id s,
                                                    link = project_link projectData,
                                                    state = Some ''paused''\<rparr>;
                                             w3 = log_call (RunsInsert row) w2
                                         in (case runs_insert e (calls w2) row of
                                               Inl msg \<Rightarrow>
                                                 (w3, Some (Error (''Failed to create run: '' @ msg)))
                                             | Inr newRunId \<Rightarrow>
                                                 let w4 = store_run newRunId row w3;
                                                     started = rpc_start_paused_run e (calls w4) newRunId;
                                                     w5 = log_call (StartPausedRun newRunId) w4
                                                 in (case rpc_error started of
                                                       Some msg \<Rightarrow>
                                                         (w5, Some (Error (''Failed to start run: '' @ msg)))
                                                     | None \<Rightarrow>
                                                         if rpc_data started then
                                                           (show_toast (ToastSuccess
                                                              (''Benchmark started for scenario: '' @ sc_name scen)) w5, None)
                                                         else
                                                           (show_toast (ToastWarning
                                                              (''Benchmark created but not started for scenario: ''
                                                                 @ sc_name scen)) w5, None))))))))"

text \<open>The token as \<^verbatim>\<open>`Bearer ${gptEngineerTestToken}`\<close> spells it.\<close>

definition token_text :: "env \<Rightarrow> json \<Rightarrow> string" where
  "token_text e v = (case v of JString s \<Rightarrow> s | _ \<Rightarrow> ToString e v)"

text \<open>
  The handler. \<open>Inl\<close> is a rejected promise: the two statements between the guards
  (\<^verbatim>\<open>JSON.parse\<close> and the read of the token) stand outside \<^verbatim>\<open>try\<close>, so what they throw
  is not caught. A missing or falsy token takes the third guard.
\<close>

definition runner_handleStartBenchmark ::
  "env \<Rightarrow> string list \<Rightarrow> string \<Rightarrow> scenario list \<Rightarrow> session option
    \<Rightarrow> user_secret list option \<Rightarrow> world \<Rightarrow> js_error + world" where
  "runner_handleStartBenchmark e selectedScenarios systemVersion scenarios sess userSecrets w =
     (if selectedScenarios = [] then
        Inr (show_toast (ToastError ''Please select at least one scenario to run.'') w)
      else (case userSecrets of
              None \<Rightarrow> Inr (show_toast (ToastError
                ''No user secrets found. Please set up your GPT Engineer test token.'') w)
            | Some [] \<Rightarrow> Inr (show_toast (ToastError
                ''No user secrets found. Please set up your GPT Engineer test token.'') w)
            | Some (first # _) \<Rightarrow>
                (case JSON_parse e (secret first) of
                   Inl err \<Rightarrow> Inl err
                 | Inr secrets \<Rightarrow>
                     (case read_GPT_ENGINEER_TEST_TOKEN secrets of
                        Inl err \<Rightarrow> Inl err
                      | Inr None \<Rightarrow> Inr (show_toast (ToastError
                          ''GPT Engineer test token not found. Please set it up in your secrets.'') w)
                      | Inr (Some gptEngineerTestToken) \<Rightarrow>
                          if \<not> truthy gptEngineerTestToken then Inr (show_toast (ToastError
                            ''GPT Engineer test token not found. Please set it up in your secrets.'') w)
                          else
                            (case for_scenarios
                                    (runner_body e scenarios systemVersion sess
                                       (token_text e gptEngineerTestToken))
                                    (w\<lparr>isRunning := True\<rparr>) selectedScenarios of
                               (w', None) \<Rightarrow>
                                 Inr (show_toast (ToastSuccess ''All benchmarks started successfully!'') w')
                             | (w', Some err) \<Rightarrow>
                                 Inr ((show_toast (ToastError
                                         ''An error occurred while starting the benchmark. Please try again.'')
                                        (w'\<lparr>console := console w' @ [(''Error starting benchmark:'', err)]\<rparr>))
                                      \<lparr>isRunning := False\<rparr>))))))"

text \<open>The button the component renders: \<^verbatim>\<open>disabled={isRunning}\<close> and its label.\<close>

definition button_disabled :: "world \<Rightarrow> bool" where
  "button_disabled w = isRunning w"

definition button_label :: "world \<Rightarrow> string" where
  "button_label w = (if isRunning w then ''Running Benchmark...'' else ''Start Benchmark'')"

section \<open>StartBenchmark.handleStartBenchmark\<close>

definition created_project_id :: "imp_event list \<Rightarrow> string option" where
  \<comment> \<open>\<^verbatim>\<open>results.find(result => result.type === 'project_created')?.data?.id\<close>\<close>
  "created_project_id impersonationResults =
     (case find (\<lambda>r. ev_type r = ''project_created'') impersonationResults of
        None \<Rightarrow> None
      | Some r \<Rightarrow> (case ev_data r of None \<Rightarrow> None | Some d \<Rightarrow> data_id d))"

text \<open>\<^verbatim>\<open>for (const reviewer of scenario.reviewers) await addResult.mutateAsync({..})\<close>\<close>

fun save_results ::
  "env \<Rightarrow> string \<Rightarrow> imp_event list \<Rightarrow> string \<Rightarrow> world \<Rightarrow> reviewer list
    \<Rightarrow> world \<times> js_error option" where
  "save_results e runId impersonationResults systemVersion w [] = (w, None)"
| "save_results e runId impersonationResults systemVersion w (rv # rest) =
     (let row = \<lparr>res_run_id = runId, res_reviewer_id = rv_id rv,
                 impersonation_results = impersonationResults,
                 res_system_version = systemVersion\<rparr>;
          w1 = log_call (AddResult row) w
      in (case addResult_mutateAsync e (calls w) row of
            Inl err \<Rightarrow> (w1, Some err)
          | Inr _ \<Rightarrow>
              save_results e runId impersonationResults systemVersion (store_result row w1) rest))"

text \<open>
  The body of the page's loop. Once the run is stored, \<^verbatim>\<open>for (.. of scenario.reviewers)\<close>
  throws when the scenario has no \<^verbatim>\<open>reviewers\<close>: \<^verbatim>\<open>undefined\<close> is not iterable.
\<close>

definition page_body ::
  "env \<Rightarrow> scenario list \<Rightarrow> string \<Rightarrow> session option \<Rightarrow> world \<Rightarrow> string
    \<Rightarrow> world \<times> js_error option" where
  "page_body e scenarios systemVersion sess w scenarioId =
     (case find (\<lambda>s. sc_id s = scenarioId) scenarios of
        None \<Rightarrow> (w, Some TypeError)
      | Some scen \<Rightarrow>
          let w1 = log_call (ImpersonateUser (prompt scen) systemVersion None) w
          in (case impersonateUser e (calls w) (prompt scen) systemVersion None of
                Inl err \<Rightarrow> (w1, Some err)
              | Inr (Flat _) \<Rightarrow> (w1, Some TypeError)
              | Inr (Events impersonationResults) \<Rightarrow>
                  (case created_project_id impersonationResults of
                     None \<Rightarrow>
                       (w1, Some (Error ''Failed to get project ID from impersonation results''))
                   | Some pid \<Rightarrow>
                       if pid = [] then
                         (w1, Some (Error ''Failed to get project ID from impersonation results''))
                       else (case sess of
                               None \<Rightarrow> (w1, Some TypeError)
                             | Some s \<Rightarrow>
                                 let row = \<lparr>scenario_id = scenarioId,
                                            system_version = systemVersion,
                                            project_id = Some pid,
                                            user_id = session_user_id s,
                                            link = None,
                                            state = None\<rparr>;
                                     w2 = log_call (AddRun row) w1
                                 in (case addRun_mutateAsync e (calls w1) row of
                                       Inl err \<Rightarrow> (w2, Some err)
                                     | Inr runId \<Rightarrow>
                                         (case reviewers scen of
                                            None \<Rightarrow> (store_run runId row w2, Some TypeError)
                                          | Some rvs \<Rightarrow>
                                              (case save_results e runId impersonationResults
                                                      systemVersion (store_run runId row w2) rvs of
                                                 (w3, Some err) \<Rightarrow> (w3, Some err)
                                               | (w3, None) \<Rightarrow>
                                                   (show_toast (ToastSuccess
                                                      (''Benchmark completed for scenario: ''
                                                         @ sc_name scen)) w3,
                                                    None))))))))"

text \<open>
  The handler of the page, as it is written: no credential is read, and \<^verbatim>\<open>finally\<close>
  clears the flag. The page lists a name it never declares, \<^verbatim>\<open>addBenchmarkResult\<close>, among
  the dependencies of \<^verbatim>\<open>useCallback\<close>; that list is evaluated on every render, which
  therefore throws a \<^verbatim>\<open>ReferenceError\<close> before the button exists. So nothing in the
  program can invoke this handler; it is modelled as it is written, and what is said of
  a batch that stores rows is said of the component.
\<close>

definition page_handleStartBenchmark ::
  "env \<Rightarrow> string list \<Rightarrow> string \<Rightarrow> scenario list \<Rightarrow> session option \<Rightarrow> world \<Rightarrow> world" where
  "page_handleStartBenchmark e selectedScenarios systemVersion scenarios sess w =
     (if selectedScenarios = [] then
        show_toast (ToastError ''Please select at least one scenario to run.'') w
      else (case for_scenarios (page_body e scenarios systemVersion sess)
                   (w\<lparr>isRunning := True\<rparr>) selectedScenarios of
              (w', None) \<Rightarrow>
                (show_toast (ToastSuccess ''All benchmarks completed successfully!'') w')
                  \<lparr>navigated := navigated w' @ [''/''], isRunning := False\<rparr>
            | (w', Some err) \<Rightarrow>
                (show_toast (ToastError
                   ''An error occurred while running the benchmark. Please try again.'')
                  (w'\<lparr>console := console w' @ [(''Error running benchmark:'', err)]\<rparr>))
                  \<lparr>isRunning := False\<rparr>))"

section \<open>RunResult: average score per dimension\<close>

text \<open>
  A result row as the page reads it: \<^verbatim>\<open>result.reviewer_id\<close> and the number
  \<^verbatim>\<open>result.result.score\<close>. The arithmetic of the number type is a parameter:
  \<open>js_zero\<close> is the literal \<^verbatim>\<open>0\<close>, \<open>js_plus\<close> is \<^verbatim>\<open>+\<close>, \<open>js_divide t c\<close> is \<^verbatim>\<open>t / c\<close> for
  a count \<open>c\<close>, and \<open>js_toFixed1 x\<close> is \<^verbatim>\<open>parseFloat(x.toFixed(1))\<close>.
\<close>

record 'n run_result =
  reviewer_id :: string
  score :: 'n

record 'n number_ops =
  js_zero :: 'n
  js_plus :: "'n \<Rightarrow> 'n \<Rightarrow> 'n"
  js_divide :: "'n \<Rightarrow> nat \<Rightarrow> 'n"
  js_toFixed1 :: "'n \<Rightarrow> 'n"

record 'n group =
  total' :: 'n
  count' :: nat

text \<open>
  The accumulator is the object literal \<^verbatim>\<open>{}\<close>, so \<^verbatim>\<open>acc[dimension]\<close> also finds what
  every object inherits from \<^verbatim>\<open>Object.prototype\<close>. Each of these names reads as a
  function or an object, which is truthy.
\<close>

definition object_prototype_names :: "string list" where
  "object_prototype_names =
     [''constructor'', ''__proto__'', ''hasOwnProperty'', ''isPrototypeOf'',
      ''propertyIsEnumerable'', ''toLocaleString'', ''toString'', ''valueOf'',
      ''__defineGetter__'', ''__defineSetter__'', ''__lookupGetter__'', ''__lookupSetter__'']"

definition dimension_of :: "(string \<Rightarrow> reviewer option) \<Rightarrow> 'n run_result \<Rightarrow> string" where
  \<comment> \<open>\<^verbatim>\<open>reviewer?.dimension || 'Unknown'\<close>: the empty string is falsy too.\<close>
  "dimension_of useReviewer r =
     (case useReviewer (reviewer_id r) of
        None \<Rightarrow> ''Unknown''
      | Some rv \<Rightarrow> if dimension rv = [] then ''Unknown'' else dimension rv)"

text \<open>
  One step of the \<^verbatim>\<open>reduce\<close>. The map holds the own properties of \<^verbatim>\<open>acc\<close>. For an
  inherited name the test \<^verbatim>\<open>!acc[dimension]\<close> is false, no own property is created, and
  the two updates land on the inherited object: \<^verbatim>\<open>acc\<close> keeps its own properties.
\<close>

definition reducer ::
  "'n number_ops \<Rightarrow> (string \<Rightarrow> reviewer option) \<Rightarrow> (string \<rightharpoonup> 'n group) \<Rightarrow> 'n run_result
    \<Rightarrow> (string \<rightharpoonup> 'n group)" where
  "reducer ops useReviewer acc r =
     (let d = dimension_of useReviewer r in
      if d \<in> set object_prototype_names then acc
      else (let g = (case acc d of None \<Rightarrow> \<lparr>total' = js_zero ops, count' = 0\<rparr> | Some g \<Rightarrow> g)
            in acc(d \<mapsto> \<lparr>total' = js_plus ops (total' g) (score r), count' = count' g + 1\<rparr>)))"

definition averageScores ::
  "'n number_ops \<Rightarrow> (string \<Rightarrow> reviewer option) \<Rightarrow> 'n run_result list \<Rightarrow> (string \<rightharpoonup> 'n group)" where
  "averageScores ops useReviewer results = foldl (reducer ops useReviewer) Map.empty results"

text \<open>
  \<^verbatim>\<open>Object.entries(averageScores).map(..)\<close>: one \<^verbatim>\<open>{dimension, averageScore}\<close> per own
  property, as the map from \<^verbatim>\<open>dimension\<close> to \<^verbatim>\<open>averageScore\<close> (the order of the entries
  is not modelled).
\<close>

definition scoreData ::
  "'n number_ops \<Rightarrow> (string \<Rightarrow> reviewer option) \<Rightarrow> 'n run_result list \<Rightarrow> (string \<rightharpoonup> 'n)" where
  "scoreData ops useReviewer results =
     (\<lambda>d. map_option (\<lambda>g. js_toFixed1 ops (js_divide ops (total' g) (count' g)))
            (averageScores ops useReviewer results d))"

text \<open>The scores of one dimension, in input order, and their sum as the loop adds them.\<close>

definition scores_of :: "(string \<Rightarrow> reviewer option) \<Rightarrow> string \<Rightarrow> 'n run_result list \<Rightarrow> 'n list" where
  "scores_of useReviewer d results =
     map score (filter (\<lambda>r. dimension_of useReviewer r = d) results)"

definition js_sum :: "'n number_ops \<Rightarrow> 'n list \<Rightarrow> 'n" where
  "js_sum ops xs = foldl (js_plus ops) (js_zero ops) xs"

subsection \<open>The number type: finite binary64 values as rationals\<close>

text \<open>
  A finite double is a rational. \<open>binary64 x\<close> rounds a rational to the nearest double,
  ties to the even significand, with 53 significant bits and the least exponent of the
  format (so small values round on the subnormal grid). Values that would round to
  \<^verbatim>\<open>Infinity\<close> (a magnitude of \<open>2 ^ 1024\<close> or more) and \<^verbatim>\<open>NaN\<close> are outside this type.
\<close>

definition pow2 :: "int \<Rightarrow> rat" where
  "pow2 k = (if 0 \<le> k then 2 ^ nat k else 1 / 2 ^ nat (- k))"

definition floor_log2 :: "rat \<Rightarrow> int" where
  \<comment> \<open>for \<open>0 < a\<close>: the \<open>k\<close> with \<open>2 ^ k \<le> a < 2 ^ (k + 1)\<close>\<close>
  "floor_log2 a =
     (let k = bitlen (fst (quotient_of a)) - bitlen (snd (quotient_of a))
      in if pow2 k \<le> a then k else k - 1)"

definition round_half_even :: "rat \<Rightarrow> int" where
  "round_half_even x =
     (let f = \<lfloor>x\<rfloor>; d = x - of_int f
      in if d < 1 / 2 then f else if 1 / 2 < d then f + 1 else if even f then f else f + 1)"

definition binary64 :: "rat \<Rightarrow> rat" where
  "binary64 x =
     (if x = 0 then 0
      else (let a = \<bar>x\<bar>; k = max (floor_log2 a) (- 1022) - 52
            in sgn x * of_int (round_half_even (a / pow2 k)) * pow2 k))"

text \<open>
  \<^verbatim>\<open>x.toFixed(1)\<close> takes the integer \<open>n\<close> with \<open>n / 10\<close> nearest to the magnitude of \<open>x\<close>,
  the larger one on a tie, and keeps the sign; from \<open>10 ^ 21\<close> on it prints \<open>x\<close> itself.
  \<^verbatim>\<open>parseFloat\<close> reads the decimal back as the nearest double.
\<close>

definition toFixed1_parseFloat :: "rat \<Rightarrow> rat" where
  "toFixed1_parseFloat x =
     (if 10 ^ 21 \<le> \<bar>x\<bar> then x
      else binary64 (sgn x * of_int \<lfloor>10 * \<bar>x\<bar> + 1 / 2\<rfloor> / 10))"

definition js_number :: "rat number_ops" where
  "js_number =
     \<lparr>js_zero = 0,
      js_plus = (\<lambda>a b. binary64 (a + b)),
      js_divide = (\<lambda>t c. binary64 (t / of_nat c)),
      js_toFixed1 = toFixed1_parseFloat\<rparr>"

section \<open>Notions used to state the properties\<close>

text \<open>The token the three guards of the component let through, if any.\<close>

definition resolved_token :: "env \<Rightarrow> user_secret list option \<Rightarrow> string option" where
  "resolved_token e userSecrets =
     (case userSecrets of
        Some (first # _) \<Rightarrow>
          (case JSON_parse e (secret first) of
             Inr secrets \<Rightarrow>
               (case read_GPT_ENGINEER_TEST_TOKEN secrets of
                  Inr (Some t) \<Rightarrow> if truthy t then Some (token_text e t) else None
                | _ \<Rightarrow> None)
           | Inl _ \<Rightarrow> None)
      | _ \<Rightarrow> None)"

definition reviewers_of :: "scenario list \<Rightarrow> string \<Rightarrow> reviewer list" where
  "reviewers_of scenarios scenarioId =
     (case find (\<lambda>s. sc_id s = scenarioId) scenarios of
        None \<Rightarrow> []
      | Some scen \<Rightarrow> (case reviewers scen of None \<Rightarrow> [] | Some rvs \<Rightarrow> rvs))"

text \<open>Runs stored since an earlier world.\<close>

definition new_runs :: "world \<Rightarrow> world \<Rightarrow> run_row list" where
  "new_runs w w' = drop (length (runs_tbl w)) (runs_tbl w')"

text \<open>Collaborators of the component that always succeed.\<close>

definition runner_collaborators_succeed :: "env \<Rightarrow> bool" where
  "runner_collaborators_succeed e =
     ((\<forall>h p v t. \<exists>r. impersonateUser e h p v t = Inr r)
      \<and> (\<forall>h v p t. \<exists>resp d. fetch e h v p t = Inr resp \<and> ok resp \<and> json resp = Inr d)
      \<and> (\<forall>h r. \<exists>i. runs_insert e h r = Inr i)
      \<and> (\<forall>h i. rpc_error (rpc_start_paused_run e h i) = None))"

section \<open>A small installation used for concrete runs\<close>

definition ex_s1 :: scenario where
  "ex_s1 = \<lparr>sc_id = ''s1'', sc_name = ''Todo app'', prompt = ''Build a todo app'',
            llm_temperature = 1 / 2,
            reviewers = Some [\<lparr>rv_id = ''r1'', dimension = ''clarity''\<rparr>,
                              \<lparr>rv_id = ''r2'', dimension = ''safety''\<rparr>]\<rparr>"

definition ex_s2 :: scenario where
  "ex_s2 = \<lparr>sc_id = ''s2'', sc_name = ''Blog'', prompt = ''Build a blog'',
            llm_temperature = 0,
            reviewers = Some [\<lparr>rv_id = ''r3'', dimension = ''clarity''\<rparr>]\<rparr>"

definition ex_scenarios :: "scenario list" where
  "ex_scenarios = [ex_s1, ex_s2]"

definition ex_session :: "session option" where
  "ex_session = Some \<lparr>session_user_id = ''u1''\<rparr>"

definition ex_secrets :: "user_secret list option" where
  "ex_secrets = Some [\<lparr>secret = ''blob''\<rparr>]"

definition ex_version :: string where
  "ex_version = ''http://v''"

definition ex_world :: world where
  "ex_world = \<lparr>runs_tbl = [], results_tbl = [], calls = [], toasts = [], console = [],
               isRunning = False, navigated = []\<rparr>"

definition ex_outcome :: impersonation where
  "ex_outcome = Flat \<lparr>projectId = ''p1'', initialRequest = ''hello'', messages = []\<rparr>"

definition ex_events :: "imp_event list" where
  "ex_events = [\<lparr>ev_type = ''project_created'', ev_data = Some \<lparr>data_id = Some ''p1''\<rparr>\<rparr>]"

definition ex_project :: project_data where
  "ex_project = \<lparr>project_link = Some ''http://host/p1''\<rparr>"

definition ex_response :: fetch_response where
  "ex_response = \<lparr>ok = True, statusText = ''OK'', json = Inr ex_project\<rparr>"

definition ex_not_found :: fetch_response where
  "ex_not_found = \<lparr>ok = False, statusText = ''Not Found'', json = Inl SyntaxError\<rparr>"

text \<open>
  Every collaborator succeeds. \<^verbatim>\<open>impersonateUser\<close> answers with the flat record the
  component expects in \<open>ex_env\<close>, and with the event list the page expects in
  \<open>ex_page_env\<close>. Three blobs parse: one with the token, one with an empty token, and
  the text \<^verbatim>\<open>null\<close>. The tokens here are strings, so \<open>ToString\<close> is never applied; it is
  given some value all the same.
\<close>

definition ex_env :: env where
  "ex_env =
     \<lparr>JSON_parse = (\<lambda>s.
         if s = ''blob'' then Inr (JObject [(''GPT_ENGINEER_TEST_TOKEN'', JString ''tok'')])
         else if s = ''empty token'' then Inr (JObject [(''GPT_ENGINEER_TEST_TOKEN'', JString [])])
         else if s = ''null'' then Inr JNull
         else Inl SyntaxError),
      ToString = (\<lambda>v. case v of JNull \<Rightarrow> ''null'' | JBool True \<Rightarrow> ''true''
                          | JBool False \<Rightarrow> ''false'' | _ \<Rightarrow> ''[object Object]''),
      impersonateUser = (\<lambda>h p v t. Inr ex_outcome),
      fetch = (\<lambda>h v p t. Inr ex_response),
      runs_insert = (\<lambda>h r. Inr (''run-'' @ scenario_id r)),
      rpc_start_paused_run = (\<lambda>h i. \<lparr>rpc_data = True, rpc_error = None\<rparr>),
      addRun_mutateAsync = (\<lambda>h r. Inr (''run-'' @ scenario_id r)),
      addResult_mutateAsync = (\<lambda>h r. Inr ())\<rparr>"

definition ex_page_env :: env where
  "ex_page_env = ex_env\<lparr>impersonateUser := (\<lambda>h p v t. Inr (Events ex_events))\<rparr>"

text \<open>The same installation with a target system that answers 404 from the second
  scenario on, and with a start procedure that fails, or starts nothing, from the
  second scenario on.\<close>

definition ex_env_fetch_fails :: env where
  "ex_env_fetch_fails =
     ex_env\<lparr>fetch := (\<lambda>h v p t. if length h < 4 then Inr ex_response else Inr ex_not_found)\<rparr>"

definition ex_env_start_fails :: env where
  "ex_env_start_fails =
     ex_env\<lparr>rpc_start_paused_run := (\<lambda>h i.
        if length h < 4 then \<lparr>rpc_data = True, rpc_error = None\<rparr>
        else \<lparr>rpc_data = False, rpc_error = Some ''run is not paused''\<rparr>)\<rparr>"

definition ex_env_not_started :: env where
  "ex_env_not_started =
     ex_env\<lparr>rpc_start_paused_run := (\<lambda>h i.
        if length h < 4 then \<lparr>rpc_data = True, rpc_error = None\<rparr>
        else \<lparr>rpc_data = False, rpc_error = None\<rparr>)\<rparr>"

text \<open>The rows and requests of these runs, and the world after the first scenario of
  the component and of the page.\<close>

definition ex_run_s1 :: run_insert where
  "ex_run_s1 = \<lparr>scenario_id = ''s1'', system_version = ''http://v'', project_id = Some ''p1'',
                user_id = ''u1'', link = Some ''http://host/p1'', state = Some ''paused''\<rparr>"

definition ex_run_s2 :: run_insert where
  "ex_run_s2 = \<lparr>scenario_id = ''s2'', system_version = ''http://v'', project_id = Some ''p1'',
                user_id = ''u1'', link = Some ''http://host/p1'', state = Some ''paused''\<rparr>"

definition ex_calls_s1 :: "call list" where
  "ex_calls_s1 = [ImpersonateUser ''Build a todo app'' ''http://v'' (Some (1 / 2)),
                  FetchProject ''http://v'' (Some ''p1'') ''tok'',
                  RunsInsert ex_run_s1, StartPausedRun ''run-s1'']"

definition ex_after_s1 :: world where
  "ex_after_s1 =
     \<lparr>runs_tbl = [\<lparr>run_id = ''run-s1'', run_fields = ex_run_s1\<rparr>], results_tbl = [],
      calls = ex_calls_s1,
      toasts = [ToastSuccess ''Benchmark started for scenario: Todo app''],
      console = [], isRunning = True, navigated = []\<rparr>"

definition ex_calls_s2 :: "call list" where
  "ex_calls_s2 = [ImpersonateUser ''Build a blog'' ''http://v'' (Some 0),
                  FetchProject ''http://v'' (Some ''p1'') ''tok'',
                  RunsInsert ex_run_s2, StartPausedRun ''run-s2'']"

text \<open>After the start request of the second scenario, before its reply is looked at.\<close>

definition ex_after_s2 :: world where
  "ex_after_s2 =
     \<lparr>runs_tbl = [\<lparr>run_id = ''run-s1'', run_fields = ex_run_s1\<rparr>,
                  \<lparr>run_id = ''run-s2'', run_fields = ex_run_s2\<rparr>],
      results_tbl = [],
      calls = ex_calls_s1 @ ex_calls_s2,
      toasts = [ToastSuccess ''Benchmark started for scenario: Todo app''],
      console = [], isRunning = True, navigated = []\<rparr>"

definition ex_page_run_s1 :: run_insert where
  "ex_page_run_s1 = \<lparr>scenario_id = ''s1'', system_version = ''http://v'',
                     project_id = Some ''p1'', user_id = ''u1'', link = None, state = None\<rparr>"

definition ex_page_result :: "string \<Rightarrow> string \<Rightarrow> result_insert" where
  "ex_page_result i r = \<lparr>res_run_id = i, res_reviewer_id = r,
                          impersonation_results = ex_events, res_system_version = ''http://v''\<rparr>"

definition ex_page_after_s1 :: world where
  "ex_page_after_s1 =
     \<lparr>runs_tbl = [\<lparr>run_id = ''run-s1'', run_fields = ex_page_run_s1\<rparr>],
      results_tbl = [ex_page_result ''run-s1'' ''r1'', ex_page_result ''run-s1'' ''r2''],
      calls = [ImpersonateUser ''Build a todo app'' ''http://v'' None, AddRun ex_page_run_s1,
               AddResult (ex_page_result ''run-s1'' ''r1''),
               AddResult (ex_page_result ''run-s1'' ''r2'')],
      toasts = [ToastSuccess ''Benchmark completed for scenario: Todo app''],
      console = [], isRunning = True, navigated = []\<rparr>"

text \<open>Result rows for the score page, and the reviewers they point to.\<close>

definition ex_useReviewer :: "string \<Rightarrow> reviewer option" where
  "ex_useReviewer i =
     (if i = ''r1'' then Some \<lparr>rv_id = ''r1'', dimension = ''clarity''\<rparr>
      else if i = ''r2'' then Some \<lparr>rv_id = ''r2'', dimension = ''safety''\<rparr>
      else if i = ''r3'' then Some \<lparr>rv_id = ''r3'', dimension = ''clarity''\<rparr>
      else if i = ''r4'' then Some \<lparr>rv_id = ''r4'', dimension = ''constructor''\<rparr>
      else if i = ''r5'' then Some \<lparr>rv_id = ''r5'', dimension = []\<rparr>
      else None)"

definition ex_results :: "rat run_result list" where
  "ex_results =
     [\<lparr>reviewer_id = ''r1'', score = 8\<rparr>, \<lparr>reviewer_id = ''r3'', score = 6\<rparr>,
      \<lparr>reviewer_id = ''r2'', score = 10\<rparr>]"

definition ex_results_inherited :: "rat run_result list" where
  "ex_results_inherited =
     [\<lparr>reviewer_id = ''r4'', score = 8\<rparr>, \<lparr>reviewer_id = ''r5'', score = 5\<rparr>]"

text \<open>Four scores of one dimension: the doubles nearest to 0.1, 0.1, 0.2 and 0.2.\<close>

definition ex_results_tenths :: "rat run_result list" where
  "ex_results_tenths =
     [\<lparr>reviewer_id = ''r1'', score = binary64 (1 / 10)\<rparr>,
      \<lparr>reviewer_id = ''r1'', score = binary64 (1 / 10)\<rparr>,
      \<lparr>reviewer_id = ''r1'', score = binary64 (2 / 10)\<rparr>,
      \<lparr>reviewer_id = ''r1'', score = binary64 (2 / 10)\<rparr>]"

section \<open>Facts about the loop\<close>

lemma for_scenarios_append:
  "for_scenarios body w (xs @ ys) =
     (case for_scenarios body w xs of
        (w', Some e) \<Rightarrow> (w', Some e)
      | (w', None) \<Rightarrow> for_scenarios body w' ys)"
  by (induction xs arbitrary: w) (auto split: prod.splits option.splits)

lemmas world_ops = log_call_def show_toast_def store_run_def store_result_def

lemma runner_with_token:
  assumes "resolved_token e userSecrets = Some tok" and "sel \<noteq> []"
  shows "runner_handleStartBenchmark e sel v scs sess userSecrets w =
     (case for_scenarios (runner_body e scs v sess tok) (w\<lparr>isRunning := True\<rparr>) sel of
        (w', None) \<Rightarrow>
          Inr (show_toast (ToastSuccess ''All benchmarks started successfully!'') w')
      | (w', Some err) \<Rightarrow>
          Inr ((show_toast (ToastError
                  ''An error occurred while starting the benchmark. Please try again.'')
                 (w'\<lparr>console := console w' @ [(''Error starting benchmark:'', err)]\<rparr>))
               \<lparr>isRunning := False\<rparr>))"
  using assms
  by (auto simp: runner_handleStartBenchmark_def resolved_token_def
      split: option.splits list.splits sum.splits if_splits)


lemma runner_body_frame:
  assumes "runner_body e scs v sess tok w sid = (w', r)"
  shows "isRunning w' = isRunning w \<and> console w' = console w \<and> navigated w' = navigated w
         \<and> results_tbl w' = results_tbl w \<and> prefix (runs_tbl w) (runs_tbl w')
         \<and> prefix (calls w) (calls w') \<and> prefix (toasts w) (toasts w')"
  using assms
  by (auto simp: runner_body_def world_ops Let_def
      split: option.splits sum.splits if_splits)

lemma runner_loop_frame:
  assumes "for_scenarios (runner_body e scs v sess tok) w sel = (w', r)"
  shows "isRunning w' = isRunning w \<and> console w' = console w \<and> navigated w' = navigated w
         \<and> results_tbl w' = results_tbl w \<and> prefix (runs_tbl w) (runs_tbl w')
         \<and> prefix (calls w) (calls w') \<and> prefix (toasts w) (toasts w')"
  using assms
proof (induction sel arbitrary: w)
  case Nil
  then show ?case by simp
next
  case (Cons sid rest)
  obtain w1 r1 where b: "runner_body e scs v sess tok w sid = (w1, r1)"
    by (cases "runner_body e scs v sess tok w sid")
  note f = runner_body_frame[OF b]
  show ?case
  proof (cases r1)
    case None
    with Cons.prems b have "for_scenarios (runner_body e scs v sess tok) w1 rest = (w', r)"
      by simp
    from Cons.IH[OF this] f show ?thesis by (auto intro: prefix_order.trans)
  next
    case (Some err)
    with Cons.prems b have "w' = w1" by simp
    with f show ?thesis by simp
  qed
qed

lemma runner_error_path:
  assumes "resolved_token e userSecrets = Some tok"
    and "for_scenarios (runner_body e scs v sess tok) (w\<lparr>isRunning := True\<rparr>) sel = (w', Some err)"
  shows "runner_handleStartBenchmark e sel v scs sess userSecrets w =
          Inr ((show_toast (ToastError
                  ''An error occurred while starting the benchmark. Please try again.'')
                 (w'\<lparr>console := console w' @ [(''Error starting benchmark:'', err)]\<rparr>))
               \<lparr>isRunning := False\<rparr>)"
proof -
  from assms(2) have "sel \<noteq> []" by auto
  from runner_with_token[OF assms(1) this] assms(2) show ?thesis by simp
qed

lemma runner_success_path:
  assumes "resolved_token e userSecrets = Some tok" and "sel \<noteq> []"
    and "for_scenarios (runner_body e scs v sess tok) (w\<lparr>isRunning := True\<rparr>) sel = (w', None)"
  shows "runner_handleStartBenchmark e sel v scs sess userSecrets w =
          Inr (show_toast (ToastSuccess ''All benchmarks started successfully!'') w')"
  using runner_with_token[OF assms(1,2)] assms(3) by simp

lemma runner_body_not_found:
  "find (\<lambda>s. sc_id s = sid) scs = None \<Longrightarrow> runner_body e scs v sess tok w sid = (w, Some TypeError)"
  by (simp add: runner_body_def)

lemma for_scenarios_stops:
  assumes "for_scenarios body w pre = (w1, None)" and "body w1 sid = (w2, Some err)"
  shows "for_scenarios body w (pre @ sid # post) = (w2, Some err)"
  using assms by (simp add: for_scenarios_append)

lemma for_scenarios_goes_on:
  assumes "for_scenarios body w pre = (w1, None)" and "body w1 sid = (w2, None)"
  shows "for_scenarios body w (pre @ sid # post) = for_scenarios body w2 post"
  using assms by (simp add: for_scenarios_append)

lemma for_scenarios_failed_before:
  assumes "for_scenarios body w pre = (w1, Some err)"
  shows "for_scenarios body w (pre @ rest) = (w1, Some err)"
  using assms by (simp add: for_scenarios_append)

lemma runner_body_fetch_not_ok:
  assumes "find (\<lambda>s. sc_id s = sid) scs = Some scen"
    and "impersonateUser e (calls w) (prompt scen) v (Some (llm_temperature scen)) = Inr outcome"
    and "fetch e (calls w @ [ImpersonateUser (prompt scen) v (Some (llm_temperature scen))])
           v (projectId_of outcome) tok = Inr resp"
    and "\<not> ok resp"
  shows "runner_body e scs v sess tok w sid =
           (log_call (FetchProject v (projectId_of outcome) tok)
              (log_call (ImpersonateUser (prompt scen) v (Some (llm_temperature scen))) w),
            Some (Error (''Failed to fetch project details: '' @ statusText resp)))"
  using assms by (simp add: runner_body_def Let_def log_call_def)

lemma runner_body_after_insert:
  assumes "find (\<lambda>s. sc_id s = sid) scs = Some scen"
    and "impersonateUser e (calls w) (prompt scen) v (Some (llm_temperature scen)) = Inr outcome"
    and "fetch e (calls w @ [ImpersonateUser (prompt scen) v (Some (llm_temperature scen))])
           v (projectId_of outcome) tok = Inr resp"
    and "ok resp" and "json resp = Inr projectData" and "sess = Some s"
    and "row = \<lparr>scenario_id = sid, system_version = v, project_id = projectId_of outcome,
                 user_id = session_user_id s, link = project_link projectData,
                 state = Some ''paused''\<rparr>"
    and "runs_insert e (calls w @ [ImpersonateUser (prompt scen) v (Some (llm_temperature scen)),
                                   FetchProject v (projectId_of outcome) tok]) row = Inr i"
    and "started = rpc_start_paused_run e
                     (calls w @ [ImpersonateUser (prompt scen) v (Some (llm_temperature scen)),
                                 FetchProject v (projectId_of outcome) tok, RunsInsert row]) i"
    and "w5 = log_call (StartPausedRun i) (store_run i row (log_call (RunsInsert row)
                (log_call (FetchProject v (projectId_of outcome) tok)
                   (log_call (ImpersonateUser (prompt scen) v (Some (llm_temperature scen))) w))))"
  shows "runner_body e scs v sess tok w sid =
           (case rpc_error started of
              Some msg \<Rightarrow> (w5, Some (Error (''Failed to start run: '' @ msg)))
            | None \<Rightarrow>
                if rpc_data started then
                  (show_toast (ToastSuccess (''Benchmark started for scenario: '' @ sc_name scen)) w5, None)
                else
                  (show_toast (ToastWarning
                     (''Benchmark created but not started for scenario: '' @ sc_name scen)) w5, None))"
  using assms by (auto simp: runner_body_def Let_def log_call_def store_run_def show_toast_def
      split: option.splits)

lemma runner_body_run_ids:
  assumes "runner_body e scs v sess tok w sid = (w', r)"
  shows "\<exists>rs. runs_tbl w' = runs_tbl w @ rs
           \<and> (\<forall>row\<in>set rs. find (\<lambda>s. sc_id s = scenario_id (run_fields row)) scs \<noteq> None)"
  using assms
  by (auto simp: runner_body_def world_ops Let_def
      split: option.splits sum.splits if_splits)

lemma runner_loop_run_ids:
  assumes "for_scenarios (runner_body e scs v sess tok) w sel = (w', r)"
  shows "\<exists>rs. runs_tbl w' = runs_tbl w @ rs
           \<and> (\<forall>row\<in>set rs. find (\<lambda>s. sc_id s = scenario_id (run_fields row)) scs \<noteq> None)"
  using assms
proof (induction sel arbitrary: w)
  case Nil
  then show ?case by simp
next
  case (Cons sid rest)
  obtain w1 r1 where b: "runner_body e scs v sess tok w sid = (w1, r1)"
    by (cases "runner_body e scs v sess tok w sid")
  from runner_body_run_ids[OF b] obtain rs1 where
    f: "runs_tbl w1 = runs_tbl w @ rs1"
      "\<forall>row\<in>set rs1. find (\<lambda>s. sc_id s = scenario_id (run_fields row)) scs \<noteq> None"
    by blast
  show ?case
  proof (cases r1)
    case None
    with Cons.prems b have "for_scenarios (runner_body e scs v sess tok) w1 rest = (w', r)"
      by simp
    from Cons.IH[OF this] obtain rs2 where
      g: "runs_tbl w' = runs_tbl w1 @ rs2"
        "\<forall>row\<in>set rs2. find (\<lambda>s. sc_id s = scenario_id (run_fields row)) scs \<noteq> None"
      by blast
    from f g have "runs_tbl w' = runs_tbl w @ (rs1 @ rs2)
        \<and> (\<forall>row\<in>set (rs1 @ rs2). find (\<lambda>s. sc_id s = scenario_id (run_fields row)) scs \<noteq> None)"
      by auto
    then show ?thesis by blast
  next
    case (Some err)
    with Cons.prems b have "w' = w1" by simp
    with f show ?thesis by blast
  qed
qed

lemma runner_loop_no_run_for_unknown:
  assumes "for_scenarios (runner_body e scs v sess tok) w sel = (w', r)"
    and "find (\<lambda>s. sc_id s = sid) scs = None"
  shows "\<forall>row\<in>set (new_runs w w'). scenario_id (run_fields row) \<noteq> sid"
proof -
  from runner_loop_run_ids[OF assms(1)] obtain rs where
    "runs_tbl w' = runs_tbl w @ rs"
    "\<forall>row\<in>set rs. find (\<lambda>s. sc_id s = scenario_id (run_fields row)) scs \<noteq> None"
    by blast
  with assms(2) show ?thesis by (auto simp: new_runs_def)
qed

lemma save_results_frame:
  assumes "save_results e i evs v w rvs = (w', r)"
  shows "isRunning w' = isRunning w \<and> console w' = console w \<and> navigated w' = navigated w
         \<and> toasts w' = toasts w \<and> runs_tbl w' = runs_tbl w
         \<and> prefix (results_tbl w) (results_tbl w') \<and> prefix (calls w) (calls w')"
  using assms
proof (induction rvs arbitrary: w)
  case Nil
  then show ?case by simp
next
  case (Cons rv rest)
  let ?row = "\<lparr>res_run_id = i, res_reviewer_id = rv_id rv, impersonation_results = evs,
                 res_system_version = v\<rparr>"
  show ?case
  proof (cases "addResult_mutateAsync e (calls w) ?row")
    case (Inl err)
    with Cons.prems show ?thesis by (auto simp: Let_def world_ops)
  next
    case (Inr u)
    with Cons.prems have
      "save_results e i evs v (store_result ?row (log_call (AddResult ?row) w)) rest = (w', r)"
      by (simp add: Let_def)
    from Cons.IH[OF this] show ?thesis
      by (auto simp: world_ops dest: append_prefixD)
  qed
qed

lemma page_body_frame:
  assumes "page_body e scs v sess w sid = (w', r)"
  shows "isRunning w' = isRunning w \<and> console w' = console w \<and> navigated w' = navigated w
         \<and> prefix (runs_tbl w) (runs_tbl w') \<and> prefix (results_tbl w) (results_tbl w')
         \<and> prefix (calls w) (calls w') \<and> prefix (toasts w) (toasts w')"
proof (cases "find (\<lambda>s. sc_id s = sid) scs")
  case None
  with assms show ?thesis by (simp add: page_body_def)
next
  case (Some scen)
  let ?w1 = "log_call (ImpersonateUser (prompt scen) v None) w"
  show ?thesis
  proof (cases "impersonateUser e (calls w) (prompt scen) v None")
    case (Inl err)
    with assms Some show ?thesis by (auto simp: page_body_def Let_def world_ops)
  next
    case (Inr imp)
    show ?thesis
    proof (cases imp)
      case (Flat x)
      with assms Some Inr show ?thesis by (auto simp: page_body_def Let_def world_ops)
    next
      case (Events evs)
      show ?thesis
      proof (cases "\<exists>pid s. created_project_id evs = Some pid \<and> pid \<noteq> [] \<and> sess = Some s")
        case False
        with assms Some Inr Events show ?thesis
          by (auto simp: page_body_def Let_def world_ops split: option.splits if_splits)
      next
        case True
        then obtain pid s where ps: "created_project_id evs = Some pid" "pid \<noteq> []" "sess = Some s"
          by blast
        let ?row = "\<lparr>scenario_id = sid, system_version = v, project_id = Some pid,
                       user_id = session_user_id s, link = None, state = None\<rparr>"
        let ?w2 = "log_call (AddRun ?row) ?w1"
        show ?thesis
        proof (cases "addRun_mutateAsync e (calls ?w1) ?row")
          case (Inl err)
          with assms Some Inr Events ps show ?thesis
            by (auto simp: page_body_def Let_def world_ops)
        next
          case (Inr runId)
          show ?thesis
          proof (cases "reviewers scen")
            case None
            with assms Some \<open>impersonateUser e (calls w) (prompt scen) v None = Inr imp\<close> Events ps Inr
            show ?thesis by (auto simp: page_body_def Let_def world_ops)
          next
            case (Some rvs)
            obtain w3 r3 where s3:
              "save_results e runId evs v (store_run runId ?row ?w2) rvs = (w3, r3)"
              by (cases "save_results e runId evs v (store_run runId ?row ?w2) rvs")
            note f = save_results_frame[OF s3]
            have "w' = w3 \<or> w' = show_toast (ToastSuccess
                     (''Benchmark completed for scenario: '' @ sc_name scen)) w3"
              using assms \<open>find (\<lambda>s. sc_id s = sid) scs = Some scen\<close>
                \<open>impersonateUser e (calls w) (prompt scen) v None = Inr imp\<close> Events ps Inr Some s3
              by (auto simp: page_body_def Let_def split: option.splits)
            with f show ?thesis
              by (auto simp: world_ops dest: append_prefixD)
          qed
        qed
      qed
    qed
  qed
qed

lemma page_loop_frame:
  assumes "for_scenarios (page_body e scs v sess) w sel = (w', r)"
  shows "isRunning w' = isRunning w \<and> console w' = console w \<and> navigated w' = navigated w
         \<and> prefix (runs_tbl w) (runs_tbl w') \<and> prefix (results_tbl w) (results_tbl w')
         \<and> prefix (calls w) (calls w') \<and> prefix (toasts w) (toasts w')"
  using assms
proof (induction sel arbitrary: w)
  case Nil
  then show ?case by simp
next
  case (Cons sid rest)
  obtain w1 r1 where b: "page_body e scs v sess w sid = (w1, r1)"
    by (cases "page_body e scs v sess w sid")
  note f = page_body_frame[OF b]
  show ?case
  proof (cases r1)
    case None
    with Cons.prems b have "for_scenarios (page_body e scs v sess) w1 rest = (w', r)"
      by simp
    from Cons.IH[OF this] f show ?thesis by (auto intro: prefix_order.trans)
  next
    case (Some err)
    with Cons.prems b have "w' = w1" by simp
    with f show ?thesis by simp
  qed
qed

lemma runner_body_ok:
  assumes "runner_collaborators_succeed e" and "sess = Some s"
    and "find (\<lambda>sc. sc_id sc = sid) scs = Some scen"
  shows "\<exists>w' i row. runner_body e scs v sess tok w sid = (w', None)
           \<and> runs_tbl w' = runs_tbl w @ [\<lparr>run_id = i, run_fields = row\<rparr>]
           \<and> scenario_id row = sid \<and> state row = Some ''paused''
           \<and> results_tbl w' = results_tbl w"
proof -
  let ?c1 = "ImpersonateUser (prompt scen) v (Some (llm_temperature scen))"
  from assms(1) obtain outcome where
    imp: "impersonateUser e (calls w) (prompt scen) v (Some (llm_temperature scen)) = Inr outcome"
    unfolding runner_collaborators_succeed_def by blast
  let ?c2 = "FetchProject v (projectId_of outcome) tok"
  from assms(1) obtain resp d where
    fet: "fetch e (calls w @ [?c1]) v (projectId_of outcome) tok = Inr resp" "ok resp" "json resp = Inr d"
    unfolding runner_collaborators_succeed_def by blast
  let ?row = "\<lparr>scenario_id = sid, system_version = v, project_id = projectId_of outcome,
                 user_id = session_user_id s, link = project_link d, state = Some ''paused''\<rparr>"
  from assms(1) obtain i where ins: "runs_insert e (calls w @ [?c1, ?c2]) ?row = Inr i"
    unfolding runner_collaborators_succeed_def by blast
  from assms(1) have rpc: "rpc_error (rpc_start_paused_run e (calls w @ [?c1, ?c2, RunsInsert ?row]) i) = None"
    unfolding runner_collaborators_succeed_def by blast
  note b = runner_body_after_insert[OF assms(3) imp fet assms(2) refl ins refl refl]
  from b rpc show ?thesis
    by (auto simp: world_ops)
qed

lemma runner_loop_ok:
  assumes "runner_collaborators_succeed e" and "sess = Some s"
    and "\<forall>sid\<in>set sel. find (\<lambda>sc. sc_id sc = sid) scs \<noteq> None"
  shows "\<exists>w' rs. for_scenarios (runner_body e scs v sess tok) w sel = (w', None)
           \<and> runs_tbl w' = runs_tbl w @ rs \<and> map (scenario_id \<circ> run_fields) rs = sel
           \<and> results_tbl w' = results_tbl w"
  using assms(3)
proof (induction sel arbitrary: w)
  case Nil
  show ?case by simp
next
  case (Cons sid rest)
  then obtain scen where found: "find (\<lambda>sc. sc_id sc = sid) scs = Some scen" by auto
  from runner_body_ok[OF assms(1,2) found, of v tok w]
  obtain w1 i row where b: "runner_body e scs v sess tok w sid = (w1, None)"
    and r1: "runs_tbl w1 = runs_tbl w @ [\<lparr>run_id = i, run_fields = row\<rparr>]" "scenario_id row = sid"
    and q1: "results_tbl w1 = results_tbl w"
    by blast
  from Cons.prems have "\<forall>sid\<in>set rest. find (\<lambda>sc. sc_id sc = sid) scs \<noteq> None" by simp
  from Cons.IH[OF this, of w1]
  obtain w' rs where l: "for_scenarios (runner_body e scs v sess tok) w1 rest = (w', None)"
    and r2: "runs_tbl w' = runs_tbl w1 @ rs" "map (scenario_id \<circ> run_fields) rs = rest"
    and q2: "results_tbl w' = results_tbl w1"
    by blast
  have "for_scenarios (runner_body e scs v sess tok) w (sid # rest) = (w', None)"
    using b l by simp
  moreover have "runs_tbl w' = runs_tbl w @ (\<lparr>run_id = i, run_fields = row\<rparr> # rs)"
    using r1 r2 by simp
  moreover have "map (scenario_id \<circ> run_fields) (\<lparr>run_id = i, run_fields = row\<rparr> # rs) = sid # rest"
    using r1 r2 by simp
  ultimately show ?case using q1 q2 by auto
qed

section \<open>Facts about the reduction\<close>

lemma scores_of_Cons:
  "scores_of u d (r # rs) =
     (if dimension_of u r = d then score r # scores_of u d rs else scores_of u d rs)"
  by (simp add: scores_of_def)

lemma scores_of_empty_iff: "scores_of u d rs = [] \<longleftrightarrow> d \<notin> dimension_of u ` set rs"
  by (auto simp: scores_of_def filter_empty_conv)

lemma foldl_reducer:
  "foldl (reducer ops u) acc rs d =
     (if d \<in> set object_prototype_names \<or> scores_of u d rs = [] then acc d
      else Some \<lparr>total' = foldl (js_plus ops)
                           (total' (case acc d of None \<Rightarrow> \<lparr>total' = js_zero ops, count' = 0\<rparr>
                                   | Some g \<Rightarrow> g))
                           (scores_of u d rs),
                 count' = count' (case acc d of None \<Rightarrow> \<lparr>total' = js_zero ops, count' = 0\<rparr>
                                  | Some g \<Rightarrow> g)
                          + length (scores_of u d rs)\<rparr>)"
proof (induction rs arbitrary: acc)
  case Nil
  show ?case by (simp add: scores_of_def)
next
  case (Cons r rs)
  show ?case
  proof (cases "dimension_of u r \<in> set object_prototype_names")
    case True
    then have "reducer ops u acc r = acc" by (simp add: reducer_def)
    with Cons.IH[of acc] True show ?thesis by (auto simp: scores_of_Cons)
  next
    case False
    let ?g = "case acc (dimension_of u r) of None \<Rightarrow> \<lparr>total' = js_zero ops, count' = 0\<rparr> | Some g \<Rightarrow> g"
    let ?acc = "acc(dimension_of u r \<mapsto> \<lparr>total' = js_plus ops (total' ?g) (score r), count' = count' ?g + 1\<rparr>)"
    from False have step: "reducer ops u acc r = ?acc" by (simp add: reducer_def Let_def)
    have e: "foldl (reducer ops u) acc (r # rs) d = foldl (reducer ops u) ?acc rs d"
      by (simp add: step)
    show ?thesis
    proof (cases "dimension_of u r = d")
      case True
      with False have np: "d \<notin> set object_prototype_names" by simp
      have a: "?acc d = Some \<lparr>total' = js_plus ops (total' ?g) (score r), count' = count' ?g + 1\<rparr>"
        using True by simp
      have g: "?g = (case acc d of None \<Rightarrow> \<lparr>total' = js_zero ops, count' = 0\<rparr> | Some g \<Rightarrow> g)"
        using True by simp
      have s: "scores_of u d (r # rs) = score r # scores_of u d rs"
        using True by (simp add: scores_of_Cons)
      show ?thesis
        unfolding e Cons.IH[of ?acc] a s using np by (simp add: g)
    next
      case False
      have a: "?acc d = acc d" using False by simp
      have s: "scores_of u d (r # rs) = scores_of u d rs"
        using False by (simp add: scores_of_Cons)
      show ?thesis
        unfolding e Cons.IH[of ?acc] a s by simp
    qed
  qed
qed

lemma averageScores_eq:
  "averageScores ops u rs d =
     (if d \<in> set object_prototype_names \<or> scores_of u d rs = [] then None
      else Some \<lparr>total' = js_sum ops (scores_of u d rs), count' = length (scores_of u d rs)\<rparr>)"
  by (simp add: averageScores_def foldl_reducer js_sum_def)

lemma scoreData_eq:
  "scoreData ops u rs d =
     (if d \<in> set object_prototype_names \<or> scores_of u d rs = [] then None
      else Some (js_toFixed1 ops (js_divide ops (js_sum ops (scores_of u d rs))
                                     (length (scores_of u d rs)))))"
  by (simp add: scoreData_def averageScores_eq)

lemma dom_scoreData:
  "dom (scoreData ops u rs) = {d \<in> dimension_of u ` set rs. d \<notin> set object_prototype_names}"
  by (auto simp: dom_def scoreData_eq scores_of_empty_iff)

lemma scores_of_length_perm:
  assumes "mset xs = mset ys"
  shows "length (scores_of u d xs) = length (scores_of u d ys)"
proof -
  from assms have "mset (filter (\<lambda>r. dimension_of u r = d) xs) = mset (filter (\<lambda>r. dimension_of u r = d) ys)"
    by simp
  then have "length (filter (\<lambda>r. dimension_of u r = d) xs) = length (filter (\<lambda>r. dimension_of u r = d) ys)"
    by (rule mset_eq_length)
  then show ?thesis by (simp add: scores_of_def)
qed

lemma js_sum_perm:
  assumes "mset xs = mset ys"
    and "\<forall>a x y. js_plus ops (js_plus ops a x) y = js_plus ops (js_plus ops a y) x"
  shows "js_sum ops xs = js_sum ops ys"
proof -
  have "fold (\<lambda>x a. js_plus ops a x) xs = fold (\<lambda>x a. js_plus ops a x) ys"
    using assms by (intro fold_multiset_equiv) (auto simp: fun_eq_iff)
  then show ?thesis by (simp add: js_sum_def foldl_conv_fold)
qed

section \<open>Facts about the number type\<close>

text \<open>Known doubles: 0.1, 0.1 + 0.2, 0.3, and the first integers that are not doubles.\<close>

lemma binary64_examples:
  "binary64 (1 / 10) = 3602879701896397 / 2 ^ 55"
  "binary64 (binary64 (1 / 10) + binary64 (2 / 10)) = 1351079888211149 / 2 ^ 52"
  "binary64 (3 / 10) = 5404319552844595 / 2 ^ 54"
  "binary64 (2 ^ 53 + 1) = 2 ^ 53"
  "binary64 (2 ^ 53 + 3) = 2 ^ 53 + 4"
  "binary64 (- (1 / 10)) = - binary64 (1 / 10)"
  by code_simp+

text \<open>Integers up to \<open>2 ^ 53\<close> in magnitude are doubles, so adding integer scores is
  exact as long as the magnitudes add up to at most \<open>2 ^ 53\<close>; then the order in which
  they are added does not matter.\<close>

lemma round_half_even_of_int: "round_half_even (of_int j) = j"
  by (simp add: round_half_even_def)

lemma pow2_pos: "0 < pow2 k"
  by (simp add: pow2_def)

lemma bitlen_one: "bitlen 1 = 1"
  by (simp add: bitlen_alt_def)

lemma floor_log2_of_int:
  assumes "0 < m"
  shows "floor_log2 (of_int m) = bitlen m - 1"
proof -
  from assms have b: "1 \<le> bitlen m" by (auto simp: bitlen_alt_def)
  from bitlen_bounds[OF assms] have "(2::int) ^ nat (bitlen m - 1) \<le> m" by simp
  then have "(of_int ((2::int) ^ nat (bitlen m - 1)) :: rat) \<le> of_int m"
    by (simp only: of_int_le_iff)
  then have "pow2 (bitlen m - 1) \<le> of_int m"
    using b by (simp add: pow2_def)
  then show ?thesis
    by (simp add: floor_log2_def bitlen_one Let_def)
qed

lemma binary64_exact:
  assumes "x \<noteq> 0" and "k = max (floor_log2 \<bar>x\<bar>) (- 1022) - 52"
    and "\<bar>x\<bar> = of_int j * pow2 k"
  shows "binary64 x = x"
proof -
  from assms(3) pow2_pos[of k] have "\<bar>x\<bar> / pow2 k = of_int j" by simp
  then have "binary64 x = sgn x * of_int j * pow2 k"
    using assms(1,2) by (simp add: binary64_def Let_def round_half_even_of_int)
  also have "\<dots> = sgn x * \<bar>x\<bar>" using assms(3) by simp
  also have "\<dots> = x" by (rule mult_sgn_abs)
  finally show ?thesis .
qed

lemma binary64_of_int:
  assumes "\<bar>m\<bar> \<le> 2 ^ 53"
  shows "binary64 (of_int m) = of_int m"
proof (cases "m = 0")
  case True
  then show ?thesis by (simp add: binary64_def)
next
  case False
  let ?n = "\<bar>m\<bar>"
  from False have n: "0 < ?n" by simp
  have a: "\<bar>of_int m :: rat\<bar> = of_int ?n" by simp
  from n have b1: "1 \<le> bitlen ?n" by (auto simp: bitlen_alt_def)
  have fl: "floor_log2 \<bar>of_int m :: rat\<bar> = bitlen ?n - 1"
    unfolding a by (rule floor_log2_of_int[OF n])
  have nz: "(of_int m :: rat) \<noteq> 0" using False by simp
  show ?thesis
  proof (cases "?n < 2 ^ 53")
    case True
    define j where "j = nat (53 - bitlen ?n)"
    from True have "bitlen ?n \<le> 53" by (simp add: bitlen_le_iff_power)
    with b1 have k: "- int j = max (floor_log2 \<bar>of_int m :: rat\<bar>) (- 1022) - 52"
      unfolding fl j_def by simp
    have v: "\<bar>of_int m :: rat\<bar> = of_int (?n * 2 ^ j) * pow2 (- int j)"
      by (simp add: pow2_def)
    show ?thesis by (rule binary64_exact[OF nz k v])
  next
    case False
    with assms have e: "?n = 2 ^ 53" by simp
    have "bitlen ?n = 54" unfolding e using bitlen_pow2[of 1 53] by (simp add: bitlen_one)
    then have k: "1 = max (floor_log2 \<bar>of_int m :: rat\<bar>) (- 1022) - 52"
      unfolding fl by simp
    have v: "\<bar>of_int m :: rat\<bar> = of_int (2 ^ 52) * pow2 1"
      unfolding a e by (simp add: pow2_def)
    show ?thesis by (rule binary64_exact[OF nz k v])
  qed
qed

lemma binary64_Ints:
  assumes "x \<in> \<int>" and "\<bar>x\<bar> \<le> 2 ^ 53"
  shows "binary64 x = x"
proof -
  from assms(1) obtain m where m: "x = of_int m" by (rule Ints_cases)
  with assms(2) have "(of_int \<bar>m\<bar> :: rat) \<le> of_int (2 ^ 53)" by simp
  then have "\<bar>m\<bar> \<le> 2 ^ 53" by (simp only: of_int_le_iff)
  from binary64_of_int[OF this] m show ?thesis by simp
qed

lemma foldl_js_plus_exact:
  assumes "\<forall>x\<in>set xs. x \<in> \<int>" and "a \<in> \<int>"
    and "\<bar>a\<bar> + sum_list (map abs xs) \<le> 2 ^ 53"
  shows "foldl (js_plus js_number) a xs = a + sum_list xs"
  using assms
proof (induction xs arbitrary: a)
  case Nil
  show ?case by simp
next
  case (Cons x xs)
  from Cons.prems have i: "a + x \<in> \<int>" by simp
  have nn: "0 \<le> sum_list (map abs xs)" by (rule sum_list_nonneg) auto
  from Cons.prems(3) nn have b: "\<bar>a + x\<bar> \<le> 2 ^ 53" by simp
  have s: "js_plus js_number a x = a + x"
    using binary64_Ints[OF i b] by (simp add: js_number_def)
  from Cons.prems(3) have "\<bar>a + x\<bar> + sum_list (map abs xs) \<le> 2 ^ 53" by simp
  from Cons.IH[OF _ i this] Cons.prems(1) s show ?case by simp
qed

lemma js_sum_exact:
  assumes "\<forall>x\<in>set xs. x \<in> \<int>" and "sum_list (map abs xs) \<le> 2 ^ 53"
  shows "js_sum js_number xs = sum_list xs"
  using foldl_js_plus_exact[OF assms(1), of 0] assms(2)
  by (simp add: js_sum_def js_number_def)

lemma sum_list_filter_le:
  fixes f :: "'a \<Rightarrow> rat"
  assumes "\<forall>x\<in>set xs. 0 \<le> f x"
  shows "sum_list (map f (filter P xs)) \<le> sum_list (map f xs)"
  using assms by (induction xs) (auto intro: add_increasing)

lemma scores_of_mset:
  assumes "mset xs = mset ys"
  shows "mset (scores_of u d xs) = mset (scores_of u d ys)"
proof -
  have "mset (scores_of u d xs) = image_mset score (filter_mset (\<lambda>r. dimension_of u r = d) (mset xs))"
    by (simp add: scores_of_def)
  also have "\<dots> = mset (scores_of u d ys)"
    unfolding assms by (simp add: scores_of_def)
  finally show ?thesis .
qed

lemma js_sum_scores_exact:
  fixes xs :: "rat run_result list"
  assumes "\<forall>r\<in>set xs. score r \<in> \<int>"
    and "sum_list (map (\<lambda>r. \<bar>score r\<bar>) xs) \<le> 2 ^ 53"
  shows "js_sum js_number (scores_of u d xs) = sum_list (scores_of u d xs)"
proof (rule js_sum_exact)
  show "\<forall>x\<in>set (scores_of u d xs). x \<in> \<int>"
    using assms(1) by (auto simp: scores_of_def)
  have "sum_list (map abs (scores_of u d xs))
          = sum_list (map (\<lambda>r. \<bar>score r\<bar>) (filter (\<lambda>r. dimension_of u r = d) xs))"
    by (simp add: scores_of_def comp_def)
  also have "\<dots> \<le> sum_list (map (\<lambda>r. \<bar>score r\<bar>) xs)"
    by (rule sum_list_filter_le) simp
  finally show "sum_list (map abs (scores_of u d xs)) \<le> 2 ^ 53"
    using assms(2) by simp
qed

lemma integer_scores_order_free:
  fixes xs ys :: "rat run_result list"
  assumes "mset xs = mset ys"
    and "\<forall>r\<in>set xs. score r \<in> \<int>"
    and "sum_list (map (\<lambda>r. \<bar>score r\<bar>) xs) \<le> 2 ^ 53"
  shows "js_sum js_number (scores_of u d xs) = js_sum js_number (scores_of u d ys)"
proof -
  from assms(1) have s: "set ys = set xs" by (metis mset_eq_setD)
  have "sum_list (map (\<lambda>r. \<bar>score r\<bar>) ys) = sum_mset (image_mset (\<lambda>r. \<bar>score r\<bar>) (mset ys))"
    by (simp flip: sum_mset_sum_list)
  also have "\<dots> = sum_list (map (\<lambda>r. \<bar>score r\<bar>) xs)"
    unfolding assms(1)[symmetric] by (simp flip: sum_mset_sum_list)
  finally have b: "sum_list (map (\<lambda>r. \<bar>score r\<bar>) ys) \<le> 2 ^ 53" using assms(3) by simp
  from assms(2) s have i: "\<forall>r\<in>set ys. score r \<in> \<int>" by simp
  have "sum_list (scores_of u d xs) = sum_mset (mset (scores_of u d xs))"
    by (simp add: sum_mset_sum_list)
  also have "\<dots> = sum_list (scores_of u d ys)"
    unfolding scores_of_mset[OF assms(1)] by (simp add: sum_mset_sum_list)
  finally show ?thesis
    using js_sum_scores_exact[OF assms(2,3)] js_sum_scores_exact[OF i b] by simp
qed

section \<open>Guards of the handlers\<close>

text \<open>
  C4. With an empty selection either handler shows the error notification ``Please
  select at least one scenario to run.'' and returns. The resulting world is the
  initial one with that notification added: no request was made, no row stored, and
  the running flag is as it was.
\<close>

theorem empty_selection_no_work:
  "runner_handleStartBenchmark e [] v scs sess userSecrets w
     = Inr (w\<lparr>toasts := toasts w @ [ToastError ''Please select at least one scenario to run.'']\<rparr>)
   \<and> page_handleStartBenchmark e [] v scs sess w
     = w\<lparr>toasts := toasts w @ [ToastError ''Please select at least one scenario to run.'']\<rparr>"
  by (simp add: runner_handleStartBenchmark_def page_handleStartBenchmark_def show_toast_def)




section \<open>The batch\<close>

text \<open>
  C1, as the component has it. Take a non-empty selection whose ids are all among the
  loaded scenarios, a signed-in user, a usable token and collaborators that always
  succeed. Then the batch stores exactly one run per selected scenario, in selection
  order, after the rows that were there before, and the results table is not written.
\<close>

theorem every_scenario_gets_its_rows:
  assumes "sel \<noteq> []" and "sess = Some s"
    and "\<forall>sid\<in>set sel. find (\<lambda>sc. sc_id sc = sid) scs \<noteq> None"
    and "runner_collaborators_succeed e" and "resolved_token e userSecrets = Some tok"
  shows "\<exists>fw. runner_handleStartBenchmark e sel v scs sess userSecrets w = Inr fw
           \<and> prefix (runs_tbl w) (runs_tbl fw)
           \<and> map (scenario_id \<circ> run_fields) (new_runs w fw) = sel
           \<and> results_tbl fw = results_tbl w"
proof -
  from runner_loop_ok[OF assms(4,2,3), of v tok "w\<lparr>isRunning := True\<rparr>"]
  obtain w' rs where l: "for_scenarios (runner_body e scs v sess tok) (w\<lparr>isRunning := True\<rparr>) sel = (w', None)"
    and r: "runs_tbl w' = runs_tbl w @ rs" "map (scenario_id \<circ> run_fields) rs = sel"
    and q: "results_tbl w' = results_tbl w"
    by auto
  from runner_success_path[OF assms(5,1) l] r q show ?thesis
    by (simp add: show_toast_def new_runs_def)
qed

theorem every_scenario_gets_its_rows_witness:
  "runner_collaborators_succeed ex_env
   \<and> resolved_token ex_env ex_secrets = Some ''tok''
   \<and> (case runner_handleStartBenchmark ex_env [''s1'', ''s2''] ex_version ex_scenarios ex_session
             ex_secrets ex_world of
         Inl err \<Rightarrow> False
       | Inr w' \<Rightarrow> map (scenario_id \<circ> run_fields) (new_runs ex_world w') = [''s1'', ''s2'']
                     \<and> results_tbl w' = results_tbl ex_world)"
proof -
  have h1: "[''s1'', ''s2''] \<noteq> ([] :: string list)" by simp
  have h2: "ex_session = Some \<lparr>session_user_id = ''u1''\<rparr>" by code_simp
  have h3: "\<forall>sid\<in>set [''s1'', ''s2'']. find (\<lambda>sc. sc_id sc = sid) ex_scenarios \<noteq> None"
    by (simp add: ex_scenarios_def ex_s1_def ex_s2_def)
  have r: "runner_collaborators_succeed ex_env"
    by (simp add: runner_collaborators_succeed_def ex_env_def ex_response_def)
  have t: "resolved_token ex_env ex_secrets = Some ''tok''" by code_simp
  from every_scenario_gets_its_rows[OF h1 h2 h3 r t, where v = ex_version and w = ex_world]
  have "case runner_handleStartBenchmark ex_env [''s1'', ''s2''] ex_version ex_scenarios ex_session
             ex_secrets ex_world of
         Inl err \<Rightarrow> False
       | Inr w' \<Rightarrow> map (scenario_id \<circ> run_fields) (new_runs ex_world w') = [''s1'', ''s2'']
                     \<and> results_tbl w' = results_tbl ex_world"
    by auto
  with r t show ?thesis by (intro conjI)
qed

text \<open>
  The component stores no result: scenario \<open>s1\<close> has two reviewers, every collaborator
  succeeds, a run is stored and the results table stays empty.
\<close>

theorem runner_stores_no_results:
  "runner_collaborators_succeed ex_env
   \<and> resolved_token ex_env ex_secrets = Some ''tok''
   \<and> map rv_id (reviewers_of ex_scenarios ''s1'') = [''r1'', ''r2'']
   \<and> (case runner_handleStartBenchmark ex_env [''s1''] ex_version ex_scenarios ex_session
             ex_secrets ex_world of
         Inl err \<Rightarrow> False
       | Inr w' \<Rightarrow> runs_tbl w' = [\<lparr>run_id = ''run-s1'', run_fields = ex_run_s1\<rparr>]
                     \<and> results_tbl w' = [])"
proof -
  have "runner_collaborators_succeed ex_env"
    by (simp add: runner_collaborators_succeed_def ex_env_def ex_response_def)
  moreover have "resolved_token ex_env ex_secrets = Some ''tok''" by code_simp
  moreover have "map rv_id (reviewers_of ex_scenarios ''s1'') = [''r1'', ''r2'']" by code_simp
  moreover have "case runner_handleStartBenchmark ex_env [''s1''] ex_version ex_scenarios ex_session
             ex_secrets ex_world of
         Inl err \<Rightarrow> False
       | Inr w' \<Rightarrow> runs_tbl w' = [\<lparr>run_id = ''run-s1'', run_fields = ex_run_s1\<rparr>]
                     \<and> results_tbl w' = []" by code_simp
  ultimately show ?thesis by (intro conjI)
qed

text \<open>
  C7, as the code has it. Let the selection hold an id that no loaded scenario has:
  \<^verbatim>\<open>find\<close> gives \<^verbatim>\<open>undefined\<close>, nothing tests for it, and reading its \<^verbatim>\<open>prompt\<close> throws a
  \<^verbatim>\<open>TypeError\<close>. Then the loop ends in an error, in the world \<open>w1\<close> reached by the ids
  before it alone: either they all passed and the error is this \<^verbatim>\<open>TypeError\<close>, or one of
  them had already failed. The handler takes the error path from \<open>w1\<close>: no run, result or
  request is added for the unknown id or for any id after it, no run stored by the
  batch carries the unknown id, the error is logged and the flag is cleared.
\<close>

theorem unknown_scenario_aborts:
  assumes "resolved_token e userSecrets = Some tok"
    and "find (\<lambda>s. sc_id s = sid) scs = None"
  shows "\<exists>w1 err fw.
           for_scenarios (runner_body e scs v sess tok) (w\<lparr>isRunning := True\<rparr>)
              (pre @ sid # post) = (w1, Some err)
         \<and> (for_scenarios (runner_body e scs v sess tok) (w\<lparr>isRunning := True\<rparr>) pre = (w1, None)
              \<and> err = TypeError
            \<or> for_scenarios (runner_body e scs v sess tok) (w\<lparr>isRunning := True\<rparr>) pre
                 = (w1, Some err))
         \<and> runner_handleStartBenchmark e (pre @ sid # post) v scs sess userSecrets w = Inr fw
         \<and> runs_tbl fw = runs_tbl w1 \<and> results_tbl fw = results_tbl w1 \<and> calls fw = calls w1
         \<and> (\<forall>row\<in>set (new_runs w fw). scenario_id (run_fields row) \<noteq> sid)
         \<and> console fw = console w1 @ [(''Error starting benchmark:'', err)]
         \<and> \<not> isRunning fw"
proof -
  let ?body = "runner_body e scs v sess tok"
  let ?W = "w\<lparr>isRunning := True\<rparr>"
  obtain w1 r where p: "for_scenarios ?body ?W pre = (w1, r)"
    by (cases "for_scenarios ?body ?W pre")
  from runner_loop_no_run_for_unknown[OF p assms(2)]
  have n: "\<forall>row\<in>set (drop (length (runs_tbl w)) (runs_tbl w1)). scenario_id (run_fields row) \<noteq> sid"
    by (simp add: new_runs_def)
  show ?thesis
  proof (cases r)
    case None
    have "for_scenarios ?body ?W (pre @ sid # post) = (w1, Some TypeError)"
      using p None runner_body_not_found[OF assms(2)] by (simp add: for_scenarios_stops)
    from runner_error_path[OF assms(1) this] this p None n show ?thesis
      by (simp add: show_toast_def new_runs_def)
  next
    case (Some err)
    have "for_scenarios ?body ?W (pre @ sid # post) = (w1, Some err)"
      using p Some by (simp add: for_scenarios_failed_before)
    from runner_error_path[OF assms(1) this] this p Some n show ?thesis
      by (simp add: show_toast_def new_runs_def)
  qed
qed

theorem unknown_scenario_aborts_witness:
  "resolved_token ex_env ex_secrets = Some ''tok''
   \<and> find (\<lambda>s. sc_id s = ''s9'') ex_scenarios = None
   \<and> (case runner_handleStartBenchmark ex_env ([''s1''] @ ''s9'' # [''s2'']) ex_version
              ex_scenarios ex_session ex_secrets ex_world of
         Inl err \<Rightarrow> False
       | Inr w' \<Rightarrow> runs_tbl w' = runs_tbl ex_after_s1 \<and> calls w' = calls ex_after_s1
           \<and> console w' = [(''Error starting benchmark:'', TypeError)] \<and> \<not> isRunning w')"
proof -
  have h1: "resolved_token ex_env ex_secrets = Some ''tok''" by code_simp
  have h2: "find (\<lambda>s. sc_id s = ''s9'') ex_scenarios = None" by code_simp
  have pre: "for_scenarios (runner_body ex_env ex_scenarios ex_version ex_session ''tok'')
     (ex_world\<lparr>isRunning := True\<rparr>) [''s1''] = (ex_after_s1, None)" by code_simp
  have c: "console ex_after_s1 = []" by code_simp
  from unknown_scenario_aborts[OF h1 h2, where pre = "[''s1'']" and post = "[''s2'']"
      and v = ex_version and sess = ex_session and w = ex_world]
  obtain w1 err fw' where
    a: "for_scenarios (runner_body ex_env ex_scenarios ex_version ex_session ''tok'')
          (ex_world\<lparr>isRunning := True\<rparr>) [''s1''] = (w1, None) \<and> err = TypeError
        \<or> for_scenarios (runner_body ex_env ex_scenarios ex_version ex_session ''tok'')
          (ex_world\<lparr>isRunning := True\<rparr>) [''s1''] = (w1, Some err)"
    and b: "runner_handleStartBenchmark ex_env ([''s1''] @ ''s9'' # [''s2'']) ex_version
              ex_scenarios ex_session ex_secrets ex_world = Inr fw'"
      "runs_tbl fw' = runs_tbl w1" "calls fw' = calls w1"
      "console fw' = console w1 @ [(''Error starting benchmark:'', err)]" "\<not> isRunning fw'"
    by blast
  from a pre have "w1 = ex_after_s1 \<and> err = TypeError" by simp
  with b c h1 h2 show ?thesis by simp
qed

text \<open>
  What the batch raises at an unknown id is not an error about a missing scenario. The
  logged error and the notification are those of any other read of a property of
  \<^verbatim>\<open>undefined\<close> or \<^verbatim>\<open>null\<close>: a selection with the unknown id \<open>s9\<close>, and a known scenario
  run without a session, end with the same console entry and the same notification.
\<close>

theorem unknown_scenario_error_is_a_TypeError:
  "find (\<lambda>s. sc_id s = ''s9'') ex_scenarios = None
   \<and> (case runner_handleStartBenchmark ex_env [''s9''] ex_version ex_scenarios ex_session
             ex_secrets ex_world of
         Inl err \<Rightarrow> False
       | Inr w' \<Rightarrow> console w' = [(''Error starting benchmark:'', TypeError)]
           \<and> toasts w' = [ToastError
                 ''An error occurred while starting the benchmark. Please try again.''])
   \<and> find (\<lambda>s. sc_id s = ''s1'') ex_scenarios = Some ex_s1
   \<and> (case runner_handleStartBenchmark ex_env [''s1''] ex_version ex_scenarios None
             ex_secrets ex_world of
         Inl err \<Rightarrow> False
       | Inr w' \<Rightarrow> console w' = [(''Error starting benchmark:'', TypeError)]
           \<and> toasts w' = [ToastError
                 ''An error occurred while starting the benchmark. Please try again.''])"
  by code_simp

text \<open>
  C3. Let the ids before \<open>sid\<close> pass, leaving world \<open>w1\<close>, and let the project request of
  \<open>sid\<close> come back with \<^verbatim>\<open>ok\<close> false. Then the handler logs an \<^verbatim>\<open>Error\<close> whose message
  ends with the response's status text, shows the generic error notification and clears
  the flag; the requests made are those up to \<open>w1\<close> and the two of \<open>sid\<close>, and the tables
  are those of \<open>w1\<close>: neither \<open>sid\<close> nor any later id gets a run.
\<close>

theorem project_fetch_failure_halts:
  assumes "resolved_token e userSecrets = Some tok"
    and "for_scenarios (runner_body e scs v sess tok) (w\<lparr>isRunning := True\<rparr>) pre = (w1, None)"
    and "find (\<lambda>s. sc_id s = sid) scs = Some scen"
    and "impersonateUser e (calls w1) (prompt scen) v (Some (llm_temperature scen)) = Inr outcome"
    and "fetch e (calls w1 @ [ImpersonateUser (prompt scen) v (Some (llm_temperature scen))])
           v (projectId_of outcome) tok = Inr resp"
    and "\<not> ok resp"
  shows "\<exists>fw. runner_handleStartBenchmark e (pre @ sid # post) v scs sess userSecrets w = Inr fw
         \<and> console fw = console w1 @ [(''Error starting benchmark:'',
               Error (''Failed to fetch project details: '' @ statusText resp))]
         \<and> toasts fw = toasts w1 @ [ToastError
               ''An error occurred while starting the benchmark. Please try again.'']
         \<and> calls fw = calls w1 @ [ImpersonateUser (prompt scen) v (Some (llm_temperature scen)),
                                   FetchProject v (projectId_of outcome) tok]
         \<and> runs_tbl fw = runs_tbl w1 \<and> results_tbl fw = results_tbl w1
         \<and> \<not> isRunning fw"
proof -
  note b = runner_body_fetch_not_ok[OF assms(3-6), where sess = sess]
  note l = for_scenarios_stops[OF assms(2) b, where post = post]
  from runner_error_path[OF assms(1) l] show ?thesis
    by (simp add: show_toast_def log_call_def)
qed

theorem project_fetch_failure_halts_witness:
  "\<not> ok ex_not_found
   \<and> (case runner_handleStartBenchmark ex_env_fetch_fails ([''s1''] @ ''s2'' # []) ex_version
              ex_scenarios ex_session ex_secrets ex_world of
         Inl err \<Rightarrow> False
       | Inr w' \<Rightarrow>
           console w' = [(''Error starting benchmark:'',
                          Error ''Failed to fetch project details: Not Found'')]
         \<and> runs_tbl w' = [\<lparr>run_id = ''run-s1'', run_fields = ex_run_s1\<rparr>]
         \<and> calls w' = ex_calls_s1 @ [ImpersonateUser ''Build a blog'' ''http://v'' (Some 0),
                                      FetchProject ''http://v'' (Some ''p1'') ''tok'']
         \<and> \<not> isRunning w')"
proof -
  have h1: "resolved_token ex_env_fetch_fails ex_secrets = Some ''tok''" by code_simp
  have h2: "for_scenarios (runner_body ex_env_fetch_fails ex_scenarios ex_version ex_session ''tok'')
     (ex_world\<lparr>isRunning := True\<rparr>) [''s1''] = (ex_after_s1, None)" by code_simp
  have h3: "find (\<lambda>s. sc_id s = ''s2'') ex_scenarios = Some ex_s2" by code_simp
  have h4: "impersonateUser ex_env_fetch_fails (calls ex_after_s1) (prompt ex_s2) ex_version
              (Some (llm_temperature ex_s2)) = Inr ex_outcome" by code_simp
  have h5: "fetch ex_env_fetch_fails
              (calls ex_after_s1 @ [ImpersonateUser (prompt ex_s2) ex_version (Some (llm_temperature ex_s2))])
              ex_version (projectId_of ex_outcome) ''tok'' = Inr ex_not_found" by code_simp
  have h6: "\<not> ok ex_not_found" by code_simp
  have v: "console ex_after_s1 = [] \<and> statusText ex_not_found = ''Not Found''
      \<and> runs_tbl ex_after_s1 = [\<lparr>run_id = ''run-s1'', run_fields = ex_run_s1\<rparr>]
      \<and> calls ex_after_s1 = ex_calls_s1 \<and> prompt ex_s2 = ''Build a blog''
      \<and> ex_version = ''http://v'' \<and> llm_temperature ex_s2 = 0
      \<and> projectId_of ex_outcome = Some ''p1''" by code_simp
  from project_fetch_failure_halts[OF h1 h2 h3 h4 h5 h6, where post = "[]"]
  obtain fw' where
    "runner_handleStartBenchmark ex_env_fetch_fails ([''s1''] @ ''s2'' # []) ex_version
              ex_scenarios ex_session ex_secrets ex_world = Inr fw'"
    "console fw' = console ex_after_s1 @ [(''Error starting benchmark:'',
               Error (''Failed to fetch project details: '' @ statusText ex_not_found))]"
    "calls fw' = calls ex_after_s1 @ [ImpersonateUser (prompt ex_s2) ex_version (Some (llm_temperature ex_s2)),
                                   FetchProject ex_version (projectId_of ex_outcome) ''tok'']"
    "runs_tbl fw' = runs_tbl ex_after_s1" "\<not> isRunning fw'"
    by blast
  with v h6 show ?thesis by simp
qed

text \<open>
  C6. Let the ids before \<open>sid\<close> pass, leaving \<open>w1\<close>, and let \<open>sid\<close> get as far as the start
  procedure, whose reply is \<open>started\<close>; \<open>w5\<close> is the world once that request is made.
  If the reply has no error and falsy data, the loop shows the warning and goes on with
  the remaining ids from there. If the reply has an error, the handler logs
  ``Failed to start run:'' with its message and stops: the run of \<open>sid\<close> stays stored and
  no request follows the start request.
\<close>

theorem start_procedure_outcomes:
  assumes "resolved_token e userSecrets = Some tok"
    and "for_scenarios (runner_body e scs v sess tok) (w\<lparr>isRunning := True\<rparr>) pre = (w1, None)"
    and "find (\<lambda>s. sc_id s = sid) scs = Some scen"
    and "impersonateUser e (calls w1) (prompt scen) v (Some (llm_temperature scen)) = Inr outcome"
    and "fetch e (calls w1 @ [ImpersonateUser (prompt scen) v (Some (llm_temperature scen))])
           v (projectId_of outcome) tok = Inr resp"
    and "ok resp" and "json resp = Inr projectData" and "sess = Some s"
    and "row = \<lparr>scenario_id = sid, system_version = v, project_id = projectId_of outcome,
                 user_id = session_user_id s, link = project_link projectData,
                 state = Some ''paused''\<rparr>"
    and "runs_insert e (calls w1 @ [ImpersonateUser (prompt scen) v (Some (llm_temperature scen)),
                                    FetchProject v (projectId_of outcome) tok]) row = Inr i"
    and "started = rpc_start_paused_run e
                     (calls w1 @ [ImpersonateUser (prompt scen) v (Some (llm_temperature scen)),
                                  FetchProject v (projectId_of outcome) tok, RunsInsert row]) i"
    and "w5 = log_call (StartPausedRun i) (store_run i row (log_call (RunsInsert row)
                (log_call (FetchProject v (projectId_of outcome) tok)
                   (log_call (ImpersonateUser (prompt scen) v (Some (llm_temperature scen))) w1))))"
  shows "(rpc_error started = None \<and> \<not> rpc_data started \<longrightarrow>
            for_scenarios (runner_body e scs v sess tok) (w\<lparr>isRunning := True\<rparr>) (pre @ sid # post)
              = for_scenarios (runner_body e scs v sess tok)
                  (show_toast (ToastWarning
                     (''Benchmark created but not started for scenario: '' @ sc_name scen)) w5) post)
       \<and> (\<forall>msg. rpc_error started = Some msg \<longrightarrow>
            (\<exists>fw. runner_handleStartBenchmark e (pre @ sid # post) v scs sess userSecrets w = Inr fw
               \<and> console fw = console w1 @ [(''Error starting benchmark:'',
                     Error (''Failed to start run: '' @ msg))]
               \<and> runs_tbl fw = runs_tbl w1 @ [\<lparr>run_id = i, run_fields = row\<rparr>]
               \<and> calls fw = calls w1 @ [ImpersonateUser (prompt scen) v (Some (llm_temperature scen)),
                                         FetchProject v (projectId_of outcome) tok,
                                         RunsInsert row, StartPausedRun i]
               \<and> \<not> isRunning fw))"
proof (intro conjI impI allI)
  note b = runner_body_after_insert[OF assms(3-12)]
  {
    assume "rpc_error started = None \<and> \<not> rpc_data started"
    with b have "runner_body e scs v sess tok w1 sid =
        (show_toast (ToastWarning
           (''Benchmark created but not started for scenario: '' @ sc_name scen)) w5, None)"
      using assms(8) by simp
    from for_scenarios_goes_on[OF assms(2) this]
    show "for_scenarios (runner_body e scs v sess tok) (w\<lparr>isRunning := True\<rparr>) (pre @ sid # post)
              = for_scenarios (runner_body e scs v sess tok)
                  (show_toast (ToastWarning
                     (''Benchmark created but not started for scenario: '' @ sc_name scen)) w5) post" .
  }
  {
    fix msg assume "rpc_error started = Some msg"
    with b have "runner_body e scs v sess tok w1 sid =
        (w5, Some (Error (''Failed to start run: '' @ msg)))"
      using assms(8) by simp
    from runner_error_path[OF assms(1) for_scenarios_stops[OF assms(2) this]]
    show "\<exists>fw. runner_handleStartBenchmark e (pre @ sid # post) v scs sess userSecrets w = Inr fw
               \<and> console fw = console w1 @ [(''Error starting benchmark:'',
                     Error (''Failed to start run: '' @ msg))]
               \<and> runs_tbl fw = runs_tbl w1 @ [\<lparr>run_id = i, run_fields = row\<rparr>]
               \<and> calls fw = calls w1 @ [ImpersonateUser (prompt scen) v (Some (llm_temperature scen)),
                                         FetchProject v (projectId_of outcome) tok,
                                         RunsInsert row, StartPausedRun i]
               \<and> \<not> isRunning fw"
      by (simp add: assms(12) show_toast_def log_call_def store_run_def)
  }
qed

theorem start_procedure_outcomes_witness:
  "for_scenarios (runner_body ex_env_not_started ex_scenarios ex_version ex_session ''tok'')
       (ex_world\<lparr>isRunning := True\<rparr>) ([''s1''] @ ''s2'' # [''s1''])
     = for_scenarios (runner_body ex_env_not_started ex_scenarios ex_version ex_session ''tok'')
         (show_toast (ToastWarning
            (''Benchmark created but not started for scenario: '' @ sc_name ex_s2)) ex_after_s2)
         [''s1'']
   \<and> (case runner_handleStartBenchmark ex_env_not_started ([''s1''] @ ''s2'' # [''s1'']) ex_version
              ex_scenarios ex_session ex_secrets ex_world of
         Inl err \<Rightarrow> False
       | Inr w' \<Rightarrow>
           map (scenario_id \<circ> run_fields) (runs_tbl w') = [''s1'', ''s2'', ''s1'']
         \<and> toasts w' = [ToastSuccess ''Benchmark started for scenario: Todo app'',
                         ToastWarning ''Benchmark created but not started for scenario: Blog'',
                         ToastWarning ''Benchmark created but not started for scenario: Todo app'',
                         ToastSuccess ''All benchmarks started successfully!''])
   \<and> (case runner_handleStartBenchmark ex_env_start_fails ([''s1''] @ ''s2'' # [''s1'']) ex_version
              ex_scenarios ex_session ex_secrets ex_world of
         Inl err \<Rightarrow> False
       | Inr w' \<Rightarrow>
           console w' = [(''Error starting benchmark:'',
                          Error ''Failed to start run: run is not paused'')]
         \<and> runs_tbl w' = [\<lparr>run_id = ''run-s1'', run_fields = ex_run_s1\<rparr>,
                           \<lparr>run_id = ''run-s2'', run_fields = ex_run_s2\<rparr>]
         \<and> calls w' = ex_calls_s1 @ ex_calls_s2
         \<and> \<not> isRunning w')"
proof -
  have h3: "find (\<lambda>s. sc_id s = ''s2'') ex_scenarios = Some ex_s2" by code_simp
  have h8: "ex_session = Some \<lparr>session_user_id = ''u1''\<rparr>" by code_simp
  have h6: "ok ex_response" by code_simp
  have h7: "json ex_response = Inr ex_project" by code_simp
  have h9: "ex_run_s2 = \<lparr>scenario_id = ''s2'', system_version = ex_version,
                 project_id = projectId_of ex_outcome,
                 user_id = session_user_id \<lparr>session_user_id = ''u1''\<rparr>,
                 link = project_link ex_project, state = Some ''paused''\<rparr>" by code_simp
  have h12: "ex_after_s2 = log_call (StartPausedRun ''run-s2'') (store_run ''run-s2'' ex_run_s2
               (log_call (RunsInsert ex_run_s2)
                (log_call (FetchProject ex_version (projectId_of ex_outcome) ''tok'')
                   (log_call (ImpersonateUser (prompt ex_s2) ex_version (Some (llm_temperature ex_s2)))
                      ex_after_s1))))" by code_simp
  have a1: "resolved_token ex_env_not_started ex_secrets = Some ''tok''" by code_simp
  have a2: "for_scenarios (runner_body ex_env_not_started ex_scenarios ex_version ex_session ''tok'')
     (ex_world\<lparr>isRunning := True\<rparr>) [''s1''] = (ex_after_s1, None)" by code_simp
  have a4: "impersonateUser ex_env_not_started (calls ex_after_s1) (prompt ex_s2) ex_version
              (Some (llm_temperature ex_s2)) = Inr ex_outcome" by code_simp
  have a5: "fetch ex_env_not_started
              (calls ex_after_s1 @ [ImpersonateUser (prompt ex_s2) ex_version (Some (llm_temperature ex_s2))])
              ex_version (projectId_of ex_outcome) ''tok'' = Inr ex_response" by code_simp
  have a10: "runs_insert ex_env_not_started
              (calls ex_after_s1 @ [ImpersonateUser (prompt ex_s2) ex_version (Some (llm_temperature ex_s2)),
                                    FetchProject ex_version (projectId_of ex_outcome) ''tok''])
              ex_run_s2 = Inr ''run-s2''" by code_simp
  have a11: "\<lparr>rpc_data = False, rpc_error = None\<rparr> = rpc_start_paused_run ex_env_not_started
              (calls ex_after_s1 @ [ImpersonateUser (prompt ex_s2) ex_version (Some (llm_temperature ex_s2)),
                                    FetchProject ex_version (projectId_of ex_outcome) ''tok'',
                                    RunsInsert ex_run_s2]) ''run-s2''" by code_simp
  have b1: "resolved_token ex_env_start_fails ex_secrets = Some ''tok''" by code_simp
  have b2: "for_scenarios (runner_body ex_env_start_fails ex_scenarios ex_version ex_session ''tok'')
     (ex_world\<lparr>isRunning := True\<rparr>) [''s1''] = (ex_after_s1, None)" by code_simp
  have b4: "impersonateUser ex_env_start_fails (calls ex_after_s1) (prompt ex_s2) ex_version
              (Some (llm_temperature ex_s2)) = Inr ex_outcome" by code_simp
  have b5: "fetch ex_env_start_fails
              (calls ex_after_s1 @ [ImpersonateUser (prompt ex_s2) ex_version (Some (llm_temperature ex_s2))])
              ex_version (projectId_of ex_outcome) ''tok'' = Inr ex_response" by code_simp
  have b10: "runs_insert ex_env_start_fails
              (calls ex_after_s1 @ [ImpersonateUser (prompt ex_s2) ex_version (Some (llm_temperature ex_s2)),
                                    FetchProject ex_version (projectId_of ex_outcome) ''tok''])
              ex_run_s2 = Inr ''run-s2''" by code_simp
  have b11: "\<lparr>rpc_data = False, rpc_error = Some ''run is not paused''\<rparr>
            = rpc_start_paused_run ex_env_start_fails
              (calls ex_after_s1 @ [ImpersonateUser (prompt ex_s2) ex_version (Some (llm_temperature ex_s2)),
                                    FetchProject ex_version (projectId_of ex_outcome) ''tok'',
                                    RunsInsert ex_run_s2]) ''run-s2''" by code_simp
  note ta = start_procedure_outcomes[OF a1 a2 h3 a4 a5 h6 h7 h8 h9 a10 a11 h12,
      where post = "[''s1'']", THEN conjunct1]
  note tb = start_procedure_outcomes[OF b1 b2 h3 b4 b5 h6 h7 h8 h9 b10 b11 h12,
      where post = "[''s1'']", THEN conjunct2]
  have first: "for_scenarios (runner_body ex_env_not_started ex_scenarios ex_version ex_session ''tok'')
       (ex_world\<lparr>isRunning := True\<rparr>) ([''s1''] @ ''s2'' # [''s1''])
     = for_scenarios (runner_body ex_env_not_started ex_scenarios ex_version ex_session ''tok'')
         (show_toast (ToastWarning
            (''Benchmark created but not started for scenario: '' @ sc_name ex_s2)) ex_after_s2)
         [''s1'']"
    using ta by simp
  have second: "case runner_handleStartBenchmark ex_env_not_started ([''s1''] @ ''s2'' # [''s1'']) ex_version
              ex_scenarios ex_session ex_secrets ex_world of
         Inl err \<Rightarrow> False
       | Inr w' \<Rightarrow>
           map (scenario_id \<circ> run_fields) (runs_tbl w') = [''s1'', ''s2'', ''s1'']
         \<and> toasts w' = [ToastSuccess ''Benchmark started for scenario: Todo app'',
                         ToastWarning ''Benchmark created but not started for scenario: Blog'',
                         ToastWarning ''Benchmark created but not started for scenario: Todo app'',
                         ToastSuccess ''All benchmarks started successfully!'']"
    by code_simp
  have v: "console ex_after_s1 = [] \<and> runs_tbl ex_after_s1 = [\<lparr>run_id = ''run-s1'', run_fields = ex_run_s1\<rparr>]
      \<and> calls ex_after_s1 @ [ImpersonateUser (prompt ex_s2) ex_version (Some (llm_temperature ex_s2)),
                                    FetchProject ex_version (projectId_of ex_outcome) ''tok'',
                                    RunsInsert ex_run_s2, StartPausedRun ''run-s2'']
          = ex_calls_s1 @ ex_calls_s2" by code_simp
  from tb obtain fw' where
    "runner_handleStartBenchmark ex_env_start_fails ([''s1''] @ ''s2'' # [''s1'']) ex_version
              ex_scenarios ex_session ex_secrets ex_world = Inr fw'"
    "console fw' = console ex_after_s1 @ [(''Error starting benchmark:'',
                     Error (''Failed to start run: '' @ ''run is not paused''))]"
    "runs_tbl fw' = runs_tbl ex_after_s1 @ [\<lparr>run_id = ''run-s2'', run_fields = ex_run_s2\<rparr>]"
    "calls fw' = calls ex_after_s1 @ [ImpersonateUser (prompt ex_s2) ex_version (Some (llm_temperature ex_s2)),
                                    FetchProject ex_version (projectId_of ex_outcome) ''tok'',
                                    RunsInsert ex_run_s2, StartPausedRun ''run-s2'']"
    "\<not> isRunning fw'"
    by auto
  with v have third: "case runner_handleStartBenchmark ex_env_start_fails ([''s1''] @ ''s2'' # [''s1'']) ex_version
              ex_scenarios ex_session ex_secrets ex_world of
         Inl err \<Rightarrow> False
       | Inr w' \<Rightarrow>
           console w' = [(''Error starting benchmark:'',
                          Error ''Failed to start run: run is not paused'')]
         \<and> runs_tbl w' = [\<lparr>run_id = ''run-s1'', run_fields = ex_run_s1\<rparr>,
                           \<lparr>run_id = ''run-s2'', run_fields = ex_run_s2\<rparr>]
         \<and> calls w' = ex_calls_s1 @ ex_calls_s2
         \<and> \<not> isRunning w'"
    by simp
  from first second third show ?thesis by (intro conjI)
qed

text \<open>
  C10. With a usable token and a non-empty selection the loop runs with the flag set
  and leaves it set. If no scenario failed, the handler returns with the flag still
  set, so the button is disabled and reads ``Running Benchmark...''; if one failed, the
  flag is cleared.
\<close>

theorem running_flag_after_batch:
  assumes "resolved_token e userSecrets = Some tok" and "sel \<noteq> []"
  shows "\<exists>wl r fw.
           for_scenarios (runner_body e scs v sess tok) (w\<lparr>isRunning := True\<rparr>) sel = (wl, r)
         \<and> isRunning wl
         \<and> runner_handleStartBenchmark e sel v scs sess userSecrets w = Inr fw
         \<and> (r = None \<longrightarrow> isRunning fw \<and> button_disabled fw
                          \<and> button_label fw = ''Running Benchmark...'')
         \<and> (r \<noteq> None \<longrightarrow> \<not> isRunning fw \<and> \<not> button_disabled fw)"
proof -
  obtain wl r where l: "for_scenarios (runner_body e scs v sess tok) (w\<lparr>isRunning := True\<rparr>) sel = (wl, r)"
    by (cases "for_scenarios (runner_body e scs v sess tok) (w\<lparr>isRunning := True\<rparr>) sel")
  from runner_loop_frame[OF l] have f: "isRunning wl" by simp
  show ?thesis
  proof (cases r)
    case None
    from runner_success_path[OF assms l[unfolded None]] l f None show ?thesis
      by (simp add: show_toast_def button_disabled_def button_label_def)
  next
    case (Some err)
    from runner_error_path[OF assms(1) l[unfolded Some]] l f Some show ?thesis
      by (simp add: show_toast_def button_disabled_def button_label_def)
  qed
qed

theorem running_flag_after_batch_witness:
  "resolved_token ex_env ex_secrets = Some ''tok''
   \<and> (case runner_handleStartBenchmark ex_env [''s1'', ''s2''] ex_version
              ex_scenarios ex_session ex_secrets ex_world of
         Inl err \<Rightarrow> False
       | Inr w' \<Rightarrow> isRunning w' \<and> button_disabled w' \<and> button_label w' = ''Running Benchmark...'')"
proof -
  have h1: "resolved_token ex_env ex_secrets = Some ''tok''" by code_simp
  have h2: "[''s1'', ''s2''] \<noteq> ([] :: string list)" by simp
  have r: "snd (for_scenarios (runner_body ex_env ex_scenarios ex_version ex_session ''tok'')
     (ex_world\<lparr>isRunning := True\<rparr>) [''s1'', ''s2'']) = None" by code_simp
  from running_flag_after_batch[OF h1 h2, where v = ex_version and scs = ex_scenarios
      and sess = ex_session and w = ex_world]
  obtain wl r' fw' where
    "for_scenarios (runner_body ex_env ex_scenarios ex_version ex_session ''tok'')
       (ex_world\<lparr>isRunning := True\<rparr>) [''s1'', ''s2''] = (wl, r')"
    "runner_handleStartBenchmark ex_env [''s1'', ''s2''] ex_version
              ex_scenarios ex_session ex_secrets ex_world = Inr fw'"
    "r' = None \<longrightarrow> isRunning fw' \<and> button_disabled fw' \<and> button_label fw' = ''Running Benchmark...''"
    by blast
  with r h1 show ?thesis by simp
qed

text \<open>
  C9. Let the ids before \<open>sid\<close> pass, leaving \<open>w1\<close> (respectively \<open>p1\<close> on the page), and
  let \<open>sid\<close> fail. In the world the handler returns, each table starts with the table of
  \<open>w1\<close>, which starts with the initial one: every row stored before the failure is
  still there, unchanged and in place. The requests made are those up to the failure:
  the error path logs, notifies and clears the flag, and sends nothing.
\<close>

theorem no_rollback_on_error:
  "(resolved_token e userSecrets = Some tok
      \<and> for_scenarios (runner_body e scs v sess tok) (w\<lparr>isRunning := True\<rparr>) pre = (w1, None)
      \<and> runner_body e scs v sess tok w1 sid = (w2, Some err)
    \<longrightarrow> (\<exists>fw. runner_handleStartBenchmark e (pre @ sid # post) v scs sess userSecrets w = Inr fw
           \<and> console fw = console w1 @ [(''Error starting benchmark:'', err)]
           \<and> calls fw = calls w2
           \<and> prefix (runs_tbl w) (runs_tbl w1) \<and> prefix (runs_tbl w1) (runs_tbl fw)
           \<and> prefix (results_tbl w) (results_tbl w1) \<and> prefix (results_tbl w1) (results_tbl fw)))
   \<and> (for_scenarios (page_body e scs v sess) (w\<lparr>isRunning := True\<rparr>) pre = (p1, None)
      \<and> page_body e scs v sess p1 sid = (p2, Some err)
    \<longrightarrow> (let fw = page_handleStartBenchmark e (pre @ sid # post) v scs sess w in
           console fw = console p1 @ [(''Error running benchmark:'', err)]
           \<and> calls fw = calls p2
           \<and> prefix (runs_tbl w) (runs_tbl p1) \<and> prefix (runs_tbl p1) (runs_tbl fw)
           \<and> prefix (results_tbl w) (results_tbl p1) \<and> prefix (results_tbl p1) (results_tbl fw)))"
proof (intro conjI impI)
  assume a: "resolved_token e userSecrets = Some tok
      \<and> for_scenarios (runner_body e scs v sess tok) (w\<lparr>isRunning := True\<rparr>) pre = (w1, None)
      \<and> runner_body e scs v sess tok w1 sid = (w2, Some err)"
  then have l: "for_scenarios (runner_body e scs v sess tok) (w\<lparr>isRunning := True\<rparr>) (pre @ sid # post)
      = (w2, Some err)"
    by (simp add: for_scenarios_stops)
  from a have f1: "prefix (runs_tbl w) (runs_tbl w1) \<and> results_tbl w1 = results_tbl w"
    using runner_loop_frame[of e scs v sess tok "w\<lparr>isRunning := True\<rparr>" pre w1 None] by simp
  from a have f2: "prefix (runs_tbl w1) (runs_tbl w2) \<and> results_tbl w2 = results_tbl w1
      \<and> console w2 = console w1"
    using runner_body_frame[of e scs v sess tok w1 sid w2 "Some err"] by simp
  from a runner_error_path[OF _ l] f1 f2
  show "\<exists>fw. runner_handleStartBenchmark e (pre @ sid # post) v scs sess userSecrets w = Inr fw
           \<and> console fw = console w1 @ [(''Error starting benchmark:'', err)]
           \<and> calls fw = calls w2
           \<and> prefix (runs_tbl w) (runs_tbl w1) \<and> prefix (runs_tbl w1) (runs_tbl fw)
           \<and> prefix (results_tbl w) (results_tbl w1) \<and> prefix (results_tbl w1) (results_tbl fw)"
    by (simp add: show_toast_def)
next
  assume a: "for_scenarios (page_body e scs v sess) (w\<lparr>isRunning := True\<rparr>) pre = (p1, None)
      \<and> page_body e scs v sess p1 sid = (p2, Some err)"
  then have l: "for_scenarios (page_body e scs v sess) (w\<lparr>isRunning := True\<rparr>) (pre @ sid # post)
      = (p2, Some err)"
    by (simp add: for_scenarios_stops)
  from a have f1: "prefix (runs_tbl w) (runs_tbl p1) \<and> prefix (results_tbl w) (results_tbl p1)"
    using page_loop_frame[of e scs v sess "w\<lparr>isRunning := True\<rparr>" pre p1 None] by simp
  from a have f2: "prefix (runs_tbl p1) (runs_tbl p2) \<and> prefix (results_tbl p1) (results_tbl p2)
      \<and> console p2 = console p1"
    using page_body_frame[of e scs v sess p1 sid p2 "Some err"] by simp
  from l f1 f2
  show "let fw = page_handleStartBenchmark e (pre @ sid # post) v scs sess w in
           console fw = console p1 @ [(''Error running benchmark:'', err)]
           \<and> calls fw = calls p2
           \<and> prefix (runs_tbl w) (runs_tbl p1) \<and> prefix (runs_tbl p1) (runs_tbl fw)
           \<and> prefix (results_tbl w) (results_tbl p1) \<and> prefix (results_tbl p1) (results_tbl fw)"
    by (simp add: page_handleStartBenchmark_def show_toast_def Let_def)
qed

theorem no_rollback_on_error_witness:
  "runner_body ex_env_start_fails ex_scenarios ex_version ex_session ''tok'' ex_after_s1 ''s2''
     = (fst (runner_body ex_env_start_fails ex_scenarios ex_version ex_session ''tok'' ex_after_s1 ''s2''),
        Some (Error ''Failed to start run: run is not paused''))
   \<and> (case runner_handleStartBenchmark ex_env_start_fails ([''s1''] @ ''s2'' # []) ex_version
              ex_scenarios ex_session ex_secrets ex_world of
         Inl err \<Rightarrow> False
       | Inr w' \<Rightarrow> prefix (runs_tbl ex_after_s1) (runs_tbl w')
           \<and> prefix (results_tbl ex_after_s1) (results_tbl w')
           \<and> console w' = [(''Error starting benchmark:'',
                             Error ''Failed to start run: run is not paused'')])
   \<and> page_body ex_page_env ex_scenarios ex_version ex_session ex_page_after_s1 ''s9''
     = (ex_page_after_s1, Some TypeError)
   \<and> (let w' = page_handleStartBenchmark ex_page_env ([''s1''] @ ''s9'' # [''s2'']) ex_version
                  ex_scenarios ex_session ex_world in
         prefix (runs_tbl ex_page_after_s1) (runs_tbl w')
       \<and> prefix (results_tbl ex_page_after_s1) (results_tbl w')
       \<and> console w' = [(''Error running benchmark:'', TypeError)])"
proof -
  let ?w2 = "fst (runner_body ex_env_start_fails ex_scenarios ex_version ex_session ''tok'' ex_after_s1 ''s2'')"
  have h1: "resolved_token ex_env_start_fails ex_secrets = Some ''tok''" by code_simp
  have h2: "for_scenarios (runner_body ex_env_start_fails ex_scenarios ex_version ex_session ''tok'')
     (ex_world\<lparr>isRunning := True\<rparr>) [''s1''] = (ex_after_s1, None)" by code_simp
  have h3: "runner_body ex_env_start_fails ex_scenarios ex_version ex_session ''tok'' ex_after_s1 ''s2''
     = (?w2, Some (Error ''Failed to start run: run is not paused''))" by code_simp
  have p2: "for_scenarios (page_body ex_page_env ex_scenarios ex_version ex_session)
     (ex_world\<lparr>isRunning := True\<rparr>) [''s1''] = (ex_page_after_s1, None)" by code_simp
  have p3: "page_body ex_page_env ex_scenarios ex_version ex_session ex_page_after_s1 ''s9''
     = (ex_page_after_s1, Some TypeError)" by code_simp
  have c: "console ex_after_s1 = [] \<and> console ex_page_after_s1 = []" by code_simp
  note t = no_rollback_on_error[where e = ex_env_start_fails and userSecrets = ex_secrets
      and tok = "''tok''" and scs = ex_scenarios and v = ex_version and sess = ex_session
      and w = ex_world and pre = "[''s1'']" and ?w1.0 = ex_after_s1 and sid = "''s2''"
      and ?w2.0 = ?w2 and err = "Error ''Failed to start run: run is not paused''" and post = "[]"]
  note u = no_rollback_on_error[where e = ex_page_env
      and scs = ex_scenarios and v = ex_version and sess = ex_session
      and w = ex_world and pre = "[''s1'']" and ?p1.0 = ex_page_after_s1 and sid = "''s9''"
      and ?p2.0 = ex_page_after_s1 and err = TypeError and post = "[''s2'']"]
  from t h1 h2 h3 obtain fw' where
    "runner_handleStartBenchmark ex_env_start_fails ([''s1''] @ ''s2'' # []) ex_version
              ex_scenarios ex_session ex_secrets ex_world = Inr fw'"
    "console fw' = console ex_after_s1 @ [(''Error starting benchmark:'',
        Error ''Failed to start run: run is not paused'')]"
    "prefix (runs_tbl ex_after_s1) (runs_tbl fw')"
    "prefix (results_tbl ex_after_s1) (results_tbl fw')"
    by blast
  moreover from u p2 p3 have
    "let w' = page_handleStartBenchmark ex_page_env ([''s1''] @ ''s9'' # [''s2'']) ex_version
                  ex_scenarios ex_session ex_world in
         console w' = console ex_page_after_s1 @ [(''Error running benchmark:'', TypeError)]
       \<and> calls w' = calls ex_page_after_s1
       \<and> prefix (runs_tbl ex_world) (runs_tbl ex_page_after_s1)
       \<and> prefix (runs_tbl ex_page_after_s1) (runs_tbl w')
       \<and> prefix (results_tbl ex_world) (results_tbl ex_page_after_s1)
       \<and> prefix (results_tbl ex_page_after_s1) (results_tbl w')"
    by blast
  ultimately show ?thesis using h3 p3 c by (simp add: Let_def)
qed

section \<open>Average scores\<close>

text \<open>
  C2, as the code has it. The label of a result is its reviewer's dimension, and
  ``Unknown'' when the reviewer is not resolved or its dimension is empty. When no label
  is a name that \<^verbatim>\<open>{}\<close> inherits, the entries are exactly the labels that occur, and the
  value of each is: the scores of that label, added in input order starting from
  \<^verbatim>\<open>0\<close>, divided by their number and passed through \<^verbatim>\<open>toFixed(1)\<close> and \<^verbatim>\<open>parseFloat\<close>.
\<close>

theorem one_entry_per_dimension:
  fixes results :: "'n run_result list"
  assumes "\<forall>r\<in>set results. dimension_of useReviewer r \<notin> set object_prototype_names"
  shows "dom (scoreData ops useReviewer results) = dimension_of useReviewer ` set results
       \<and> (\<forall>d\<in>dimension_of useReviewer ` set results.
            scoreData ops useReviewer results d =
              Some (js_toFixed1 ops
                      (js_divide ops (js_sum ops (scores_of useReviewer d results))
                                     (length (scores_of useReviewer d results)))))
       \<and> (\<forall>r\<in>set results. useReviewer (reviewer_id r) = None
            \<longrightarrow> dimension_of useReviewer r = ''Unknown'')"
proof (intro conjI ballI impI)
  show "dom (scoreData ops useReviewer results) = dimension_of useReviewer ` set results"
    using assms by (auto simp: dom_scoreData)
next
  fix d assume d: "d \<in> dimension_of useReviewer ` set results"
  with assms have "d \<notin> set object_prototype_names" by auto
  moreover from d have "scores_of useReviewer d results \<noteq> []" by (simp add: scores_of_empty_iff)
  ultimately show "scoreData ops useReviewer results d =
              Some (js_toFixed1 ops
                      (js_divide ops (js_sum ops (scores_of useReviewer d results))
                                     (length (scores_of useReviewer d results))))"
    by (simp add: scoreData_eq)
next
  fix r :: "'n run_result"
  assume "useReviewer (reviewer_id r) = None"
  then show "dimension_of useReviewer r = ''Unknown''" by (simp add: dimension_of_def)
qed

theorem one_entry_per_dimension_witness:
  "list_all (\<lambda>r. dimension_of ex_useReviewer r \<notin> set object_prototype_names) ex_results
   \<and> dom (scoreData js_number ex_useReviewer ex_results) = {''clarity'', ''safety''}
   \<and> scoreData js_number ex_useReviewer ex_results ''clarity'' = Some 7
   \<and> scoreData js_number ex_useReviewer ex_results ''safety'' = Some 10"
proof -
  have h: "\<forall>r\<in>set ex_results. dimension_of ex_useReviewer r \<notin> set object_prototype_names"
    by code_simp
  have l: "dimension_of ex_useReviewer ` set ex_results = {''clarity'', ''safety''}"
    by (auto simp: ex_results_def dimension_of_def ex_useReviewer_def)
  note t = one_entry_per_dimension[OF h, where ops = js_number]
  have v: "js_toFixed1 js_number (js_divide js_number
               (js_sum js_number (scores_of ex_useReviewer ''clarity'' ex_results))
               (length (scores_of ex_useReviewer ''clarity'' ex_results))) = 7
         \<and> js_toFixed1 js_number (js_divide js_number
               (js_sum js_number (scores_of ex_useReviewer ''safety'' ex_results))
               (length (scores_of ex_useReviewer ''safety'' ex_results))) = 10"
    by code_simp
  from t l have "dom (scoreData js_number ex_useReviewer ex_results) = {''clarity'', ''safety''}"
    by simp
  moreover from t l v have "scoreData js_number ex_useReviewer ex_results ''clarity'' = Some 7"
    by simp
  moreover from t l v have "scoreData js_number ex_useReviewer ex_results ''safety'' = Some 10"
    by simp
  ultimately show ?thesis using h by (simp add: list_all_iff)
qed

text \<open>
  Two resolved reviewers, one with dimension ``constructor'' and one with an empty
  dimension: no entry is made for either label; the second result is counted under
  ``Unknown''.
\<close>

theorem inherited_name_has_no_entry:
  "map (\<lambda>r. map_option dimension (ex_useReviewer (reviewer_id r))) ex_results_inherited
     = [Some ''constructor'', Some '''']
   \<and> scoreData js_number ex_useReviewer ex_results_inherited ''constructor'' = None
   \<and> scoreData js_number ex_useReviewer ex_results_inherited '''' = None
   \<and> scoreData js_number ex_useReviewer ex_results_inherited ''Unknown'' = Some 5"
  by code_simp

text \<open>
  C8, as the code has it. If one sequence is a permutation of the other and, for each
  label, adding that label's scores in either order gives the same number, the two
  mappings are equal. The empty sequence gives the empty mapping. (By
  \<open>integer_scores_order_free\<close> the sums agree for integer scores whose magnitudes add
  up to at most \<open>2 ^ 53\<close>.)
\<close>

theorem aggregate_order:
  assumes "mset xs = mset ys"
    and "\<forall>d\<in>dimension_of useReviewer ` set xs.
           js_sum ops (scores_of useReviewer d xs) = js_sum ops (scores_of useReviewer d ys)"
  shows "scoreData ops useReviewer xs = scoreData ops useReviewer ys
       \<and> scoreData ops useReviewer [] = Map.empty"
proof
  show "scoreData ops useReviewer xs = scoreData ops useReviewer ys"
  proof
    fix d
    from assms(1) have s: "set xs = set ys" by (rule mset_eq_setD)
    show "scoreData ops useReviewer xs d = scoreData ops useReviewer ys d"
    proof (cases "d \<in> dimension_of useReviewer ` set xs")
      case True
      with assms(2) have "js_sum ops (scores_of useReviewer d xs) = js_sum ops (scores_of useReviewer d ys)"
        by blast
      with True s scores_of_length_perm[OF assms(1), of useReviewer d] show ?thesis
        by (simp add: scoreData_eq scores_of_empty_iff)
    next
      case False
      with s show ?thesis by (simp add: scoreData_eq scores_of_empty_iff)
    qed
  qed
  show "scoreData ops useReviewer [] = Map.empty"
    by (simp add: scoreData_def averageScores_def)
qed

theorem aggregate_order_witness:
  "mset ex_results = mset (rev ex_results)
   \<and> scoreData js_number ex_useReviewer ex_results
       = scoreData js_number ex_useReviewer (rev ex_results)
   \<and> scoreData js_number ex_useReviewer (rev ex_results) ''clarity'' = Some 7"
proof -
  have h1: "mset ex_results = mset (rev ex_results)" by simp
  have l: "dimension_of ex_useReviewer ` set ex_results = {''clarity'', ''safety''}"
    by (auto simp: ex_results_def dimension_of_def ex_useReviewer_def)
  have v: "js_sum js_number (scores_of ex_useReviewer ''clarity'' ex_results)
             = js_sum js_number (scores_of ex_useReviewer ''clarity'' (rev ex_results))
         \<and> js_sum js_number (scores_of ex_useReviewer ''safety'' ex_results)
             = js_sum js_number (scores_of ex_useReviewer ''safety'' (rev ex_results))"
    by code_simp
  have h2: "\<forall>d\<in>dimension_of ex_useReviewer ` set ex_results.
           js_sum js_number (scores_of ex_useReviewer d ex_results)
             = js_sum js_number (scores_of ex_useReviewer d (rev ex_results))"
    using v by (simp add: l)
  have e: "scoreData js_number ex_useReviewer (rev ex_results) ''clarity'' = Some 7" by code_simp
  from aggregate_order[OF h1 h2] h1 e show ?thesis by simp
qed

text \<open>
  Scores 0.1, 0.1, 0.2 and 0.2 of one dimension. In this order the sum is the double
  above \<open>0.6\<close>, the mean lies above \<open>0.15\<close> and is shown as \<open>0.2\<close>; in the reverse order
  the sum is the double \<open>0.6\<close>, the mean is the double \<open>0.15\<close>, which lies below
  \<open>15 / 100\<close>, and is shown as \<open>0.1\<close>.
\<close>

theorem float_sum_depends_on_order:
  "mset ex_results_tenths = mset (rev ex_results_tenths)
   \<and> averageScores js_number ex_useReviewer ex_results_tenths ''clarity''
       = Some \<lparr>total' = 5404319552844596 / 2 ^ 53, count' = 4\<rparr>
   \<and> averageScores js_number ex_useReviewer (rev ex_results_tenths) ''clarity''
       = Some \<lparr>total' = 5404319552844595 / 2 ^ 53, count' = 4\<rparr>
   \<and> scoreData js_number ex_useReviewer ex_results_tenths ''clarity'' = Some (binary64 (2 / 10))
   \<and> scoreData js_number ex_useReviewer (rev ex_results_tenths) ''clarity'' = Some (binary64 (1 / 10))
   \<and> binary64 (2 / 10) \<noteq> binary64 (1 / 10)"
proof -
  have "mset ex_results_tenths = mset (rev ex_results_tenths)" by simp
  moreover have "averageScores js_number ex_useReviewer ex_results_tenths ''clarity''
       = Some \<lparr>total' = 5404319552844596 / 2 ^ 53, count' = 4\<rparr>"
    by code_simp
  moreover have "averageScores js_number ex_useReviewer (rev ex_results_tenths) ''clarity''
       = Some \<lparr>total' = 5404319552844595 / 2 ^ 53, count' = 4\<rparr>"
    by code_simp
  moreover have "scoreData js_number ex_useReviewer ex_results_tenths ''clarity'' = Some (binary64 (2 / 10))"
    by code_simp
  moreover have "scoreData js_number ex_useReviewer (rev ex_results_tenths) ''clarity'' = Some (binary64 (1 / 10))"
    by code_simp
  moreover have "binary64 (2 / 10) \<noteq> binary64 (1 / 10)" by code_simp
  ultimately show ?thesis by (intro conjI)
qed

end
